theory Spec2Isabelle
  imports Main "HOL-Library.AList"
begin

section \<open>JavaScript values and settled promises\<close>

text \<open>
  The values that flow through the submission chain of \<^verbatim>\<open>views/form\<close>: what
  \<^verbatim>\<open>beforeSubmit\<close> and \<^verbatim>\<open>submit\<close> return, what is thrown, and the result object
  whose \<^verbatim>\<open>halt\<close> property \<^verbatim>\<open>afterSubmit\<close> reads.
\<close>

datatype jsvalue =
    JUndefined
  | JNull
  | JBool bool
  | JNum int
  | JStr string
  | JObj "(string \<times> jsvalue) list"

fun truthy :: "jsvalue \<Rightarrow> bool" where
  "truthy JUndefined = False"
| "truthy JNull = False"
| "truthy (JBool b) = b"
| "truthy (JNum n) = (n \<noteq> 0)"
| "truthy (JStr s) = (s \<noteq> [])"
| "truthy (JObj fs) = True"

text \<open>
  Property access \<^verbatim>\<open>result.halt\<close>. The source reads it only behind \<^verbatim>\<open>result &&\<close>, so
  the receiver is never \<^verbatim>\<open>undefined\<close> or \<^verbatim>\<open>null\<close>; on the other primitives a missing
  property reads as \<^verbatim>\<open>undefined\<close>.
\<close>

fun getProp :: "jsvalue \<Rightarrow> string \<Rightarrow> jsvalue" where
  "getProp (JObj fs) k = (case map_of fs k of Some x \<Rightarrow> x | None \<Rightarrow> JUndefined)"
| "getProp other k = JUndefined"

text \<open>
  A promise chain is run to completion: a stage either resolves with a value or
  rejects with the thrown value. A stage that returns \<^verbatim>\<open>x\<close> and one that returns a
  promise resolving to \<^verbatim>\<open>x\<close> are both \<open>Resolved x\<close>; a throw and a rejected promise
  are both \<open>Rejected e\<close>.
\<close>

datatype settled = Resolved jsvalue | Rejected jsvalue

section \<open>The rendered form\<close>

datatype tag = InputTag | TextareaTag | SelectTag | ButtonTag

text \<open>
  One element of the rendered subtree, with the attributes the form view reads.
  \<open>inCoppa\<close> says that the element is a descendant of \<^verbatim>\<open>#coppa\<close>; \<open>validity\<close> is
  \<open>None\<close> when the browser gives the element no \<^verbatim>\<open>validity\<close> object and otherwise
  holds \<^verbatim>\<open>validity.valid\<close>.
\<close>

record element =
  tagName :: tag
  typeAttr :: "string option"
  nameAttr :: "string option"
  idAttr :: "string option"
  classes :: "string list"
  requiredAttr :: bool
  novalueAttr :: bool
  disabledAttr :: bool
  inCoppa :: bool
  val :: string
  validity :: "bool option"

text \<open>
  An error of the taxonomy \<^verbatim>\<open>lib/auth-errors\<close>, which is not among the sources: the
  form view deals in symbolic kinds only, so an error is its kind.
\<close>

datatype auth_error = AuthError string

text \<open>
  Modelled from the spec: \<^verbatim>\<open>AuthErrors.toError\<close> of \<^verbatim>\<open>lib/auth-errors\<close>, absent from
  the sources. It turns a symbolic kind into the error of that kind. The lookup
  of the user-facing string, \<^verbatim>\<open>AuthErrors.toMessage\<close>, is a parameter
  (\<open>toMessage\<close> below).
\<close>

definition toError :: "string \<Rightarrow> auth_error" where
  "toError kind = AuthError kind"

record tooltip =
  invalidEl :: element
  message :: string

datatype event =
    Triggered string
  | ValidationErrorShown element string
  | ViewEventLogged string
  | ErrorLogged auth_error

text \<open>
  The state of one form view instance. \<open>isFormEnabled_flag\<close>, \<open>isSubmitting_flag\<close>
  and \<open>isHalted_flag\<close> are the fields \<^verbatim>\<open>_isFormEnabled\<close>, \<^verbatim>\<open>_isSubmitting\<close> and
  \<^verbatim>\<open>_isHalted\<close>; \<open>previousFormValues\<close> is \<^verbatim>\<open>_previousFormValues\<close>, \<open>None\<close> while it
  is still \<^verbatim>\<open>undefined\<close>. \<open>tooltips\<close> are the tooltip child views created so far,
  \<open>visibleTooltips\<close> the tooltips that are on screen and
  \<open>events\<close> the signals and log entries emitted so far, in order.
\<close>

record view =
  elements :: "element list"
  isFormEnabled_flag :: bool
  isSubmitting_flag :: bool
  isHalted_flag :: bool
  previousFormValues :: "(string \<times> string) list option"
  visibleError :: "jsvalue option"
  visibleSuccess :: bool
  tooltips :: "tooltip list"
  visibleTooltips :: "tooltip list"
  events :: "event list"

text \<open>
  The collaborators the view is given: the two format checks behind
  \<^verbatim>\<open>lib/validate\<close> and the message lookup of the error taxonomy.
\<close>

record services =
  emailFormat :: "string \<Rightarrow> bool"
  passwordFormat :: "string \<Rightarrow> bool"
  toMessage :: "auth_error \<Rightarrow> string"

text \<open>
  The override points of a descendant view. Each hook runs on the view and may
  change it; the three hooks of the submission chain may also throw or reject.
\<close>

record hooks =
  isValidStart :: "view \<Rightarrow> bool \<times> view"
  isValidEnd :: "view \<Rightarrow> bool \<times> view"
  showValidationErrorsStart :: "view \<Rightarrow> bool \<times> view"
  showValidationErrorsEnd :: "view \<Rightarrow> view"
  beforeSubmit :: "view \<Rightarrow> settled \<times> view"
  submit :: "view \<Rightarrow> settled \<times> view"
  afterSubmit :: "jsvalue \<Rightarrow> view \<Rightarrow> settled \<times> view"

section \<open>Services of the base view\<close>

text \<open>
  \<^verbatim>\<open>views/base\<close> is not among the sources. Of the base view the form uses the
  visible error and success messages, the signal emitter and the two loggers;
  each is modelled from what the specification says of it.
\<close>

text \<open>
  Modelled from the spec: \<^verbatim>\<open>displayError\<close> of \<^verbatim>\<open>views/base\<close>, absent from the sources.
  A submission failure is displayed and remains visible.
\<close>

definition displayError :: "jsvalue \<Rightarrow> view \<Rightarrow> view" where
  "displayError err v = v\<lparr>visibleError := Some err\<rparr>"

text \<open>
  Modelled from the spec: \<^verbatim>\<open>hideError\<close> of \<^verbatim>\<open>views/base\<close>, absent from the sources.
  It hides the visible error message, if any.
\<close>

definition hideError :: "view \<Rightarrow> view" where
  "hideError v = v\<lparr>visibleError := None\<rparr>"

text \<open>
  Modelled from the spec: \<^verbatim>\<open>isErrorVisible\<close> of \<^verbatim>\<open>views/base\<close>, absent from the
  sources. It says whether an error is currently visible.
\<close>

definition isErrorVisible :: "view \<Rightarrow> bool" where
  "isErrorVisible v = (visibleError v \<noteq> None)"

text \<open>
  Modelled from the spec: \<^verbatim>\<open>hideSuccess\<close> of \<^verbatim>\<open>views/base\<close>, absent from the sources.
  It hides the visible success message, if any.
\<close>

definition hideSuccess :: "view \<Rightarrow> view" where
  "hideSuccess v = v\<lparr>visibleSuccess := False\<rparr>"

text \<open>
  Modelled from the spec: \<^verbatim>\<open>trigger\<close> of the view, absent from the sources. It emits
  a signal that the host view and the tests can observe.
\<close>

definition trigger :: "string \<Rightarrow> view \<Rightarrow> view" where
  "trigger name v = v\<lparr>events := events v @ [Triggered name]\<rparr>"

text \<open>
  Modelled from the spec: \<^verbatim>\<open>logViewEvent\<close> of \<^verbatim>\<open>views/base\<close>, absent from the sources;
  event logging is a provided service, kept here as an entry of the log.
\<close>

definition logViewEvent :: "string \<Rightarrow> view \<Rightarrow> view" where
  "logViewEvent name v = v\<lparr>events := events v @ [ViewEventLogged name]\<rparr>"

text \<open>
  Modelled from the spec: \<^verbatim>\<open>logError\<close> of \<^verbatim>\<open>views/base\<close>, absent from the sources;
  error logging is a provided service, kept here as an entry of the log.
\<close>

definition logError :: "auth_error \<Rightarrow> view \<Rightarrow> view" where
  "logError err v = v\<lparr>events := events v @ [ErrorLogged err]\<rparr>"

section \<open>Element values and kinds\<close>

text \<open>
  \<^verbatim>\<open>$.trim\<close> of jQuery removes leading and trailing whitespace; over 8-bit
  characters that is space, the control characters 9 to 13 and the no-break space.
\<close>

definition isSpace :: "char \<Rightarrow> bool" where
  "isSpace c = (c \<in> set [CHR 0x20, CHR 0x09, CHR 0x0A, CHR 0x0B, CHR 0x0C, CHR 0x0D, CHR 0xA0])"

definition trim :: "string \<Rightarrow> string" where
  "trim s = rev (dropWhile isSpace (rev (dropWhile isSpace s)))"

definition getElementType :: "element \<Rightarrow> string option" where
  "getElementType el =
     (let fieldType = typeAttr el
      in if fieldType = Some ''text'' \<and> ''password'' \<in> set (classes el)
         then Some ''password'' else fieldType)"

definition getElementValue :: "element \<Rightarrow> string" where
  "getElementValue el =
     (let value = val el
      in if value \<noteq> [] \<and> getElementType el = Some ''email'' then trim value else value)"

section \<open>Validation\<close>

text \<open>
  Modelled from the spec: \<^verbatim>\<open>Validate.isEmailValid\<close> of \<^verbatim>\<open>lib/validate\<close>, absent from
  the sources. An email passes when it is non-empty and passes an email-format
  check; the format check is a parameter.
\<close>

definition isEmailValid :: "services \<Rightarrow> string \<Rightarrow> bool" where
  "isEmailValid S email = (email \<noteq> [] \<and> emailFormat S email)"

text \<open>
  Modelled from the spec: \<^verbatim>\<open>Validate.isPasswordValid\<close> of \<^verbatim>\<open>lib/validate\<close>, absent
  from the sources. A password passes when it is non-empty and passes a
  minimum-length/format check; that check is a parameter.
\<close>

definition isPasswordValid :: "services \<Rightarrow> string \<Rightarrow> bool" where
  "isPasswordValid S password = (password \<noteq> [] \<and> passwordFormat S password)"

definition validateEmail :: "services \<Rightarrow> element \<Rightarrow> bool" where
  "validateEmail S el = isEmailValid S (getElementValue el)"

definition validatePassword :: "services \<Rightarrow> element \<Rightarrow> bool" where
  "validatePassword S el = isPasswordValid S (getElementValue el)"

definition validateInput :: "element \<Rightarrow> bool" where
  "validateInput el =
     (let isRequired = requiredAttr el;
          value = getElementValue el
      in if isRequired \<and> length value = 0 then False
         else (case validity el of Some valid \<Rightarrow> valid | None \<Rightarrow> True))"

definition isElementValid :: "services \<Rightarrow> element \<Rightarrow> bool" where
  "isElementValid S el =
     (let type = getElementType el
      in if type = Some ''email'' then validateEmail S el
         else if type = Some ''password'' then validatePassword S el
         else validateInput el)"

text \<open>The selection \<^verbatim>\<open>this.$('input').not('#coppa input')\<close>, in document order.\<close>

definition inputEls :: "view \<Rightarrow> element list" where
  "inputEls v = filter (\<lambda>el. \<not> inCoppa el) (filter (\<lambda>el. tagName el = InputTag) (elements v))"

text \<open>The loop of \<^verbatim>\<open>isValid\<close>: false at the first element that is not valid.\<close>

primrec allElementsValid :: "services \<Rightarrow> element list \<Rightarrow> bool" where
  "allElementsValid S [] = True"
| "allElementsValid S (el # els) =
     (if \<not> isElementValid S el then False else allElementsValid S els)"

definition isValid :: "services \<Rightarrow> hooks \<Rightarrow> view \<Rightarrow> bool \<times> view" where
  "isValid S h v =
     (case isValidStart h v of
        (started, v1) \<Rightarrow>
          if \<not> started then (False, v1)
          else if \<not> allElementsValid S (inputEls v1) then (False, v1)
          else isValidEnd h v1)"

section \<open>Error presentation\<close>

text \<open>
  Modelled from the spec: the tooltip view \<^verbatim>\<open>views/tooltip\<close>, absent from the sources.
  A tooltip is a transient element anchored to one field and showing one message.
  Rendering a tooltip puts it on screen in place of any tooltip that was there:
  never more than one tooltip of this kind is visible at a time per form instance.
\<close>

definition renderTooltip :: "tooltip \<Rightarrow> view \<Rightarrow> view" where
  "renderTooltip t v = v\<lparr>visibleTooltips := [t]\<rparr>"

text \<open>
  \<^verbatim>\<open>showValidationError\<close> logs the error, creates the tooltip for the element,
  renders it, keeps it as a child view and returns the message. The model keeps
  the \<^verbatim>\<open>validation_error\<close> signal emitted once the tooltip has rendered, and leaves
  out the \<^verbatim>\<open>invalid\<close> class and the focus, which no operation of the form reads,
  and the later destruction of the tooltip.
\<close>

definition showValidationError :: "services \<Rightarrow> element \<Rightarrow> auth_error \<Rightarrow> view \<Rightarrow> string \<times> view" where
  "showValidationError S el err v =
     (let v1 = logError err v;
          msg = toMessage S err;
          tooltip = \<lparr>invalidEl = el, message = msg\<rparr>;
          v2 = renderTooltip tooltip v1;
          v3 = v2\<lparr>events := events v2 @ [ValidationErrorShown el msg]\<rparr>;
          v4 = v3\<lparr>tooltips := tooltips v3 @ [tooltip]\<rparr>
      in (msg, v4))"

definition showEmailValidationError :: "services \<Rightarrow> element \<Rightarrow> view \<Rightarrow> string \<times> view" where
  "showEmailValidationError S el v =
     (let value = getElementValue el;
          err = (if value \<noteq> [] \<and> length value \<noteq> 0
                 then toError ''INVALID_EMAIL'' else toError ''EMAIL_REQUIRED'')
      in showValidationError S el err v)"

definition showPasswordValidationError :: "services \<Rightarrow> element \<Rightarrow> view \<Rightarrow> string \<times> view" where
  "showPasswordValidationError S el v =
     (let passwordVal = getElementValue el;
          errType = (if passwordVal \<noteq> [] then ''PASSWORD_TOO_SHORT'' else ''PASSWORD_REQUIRED'')
      in showValidationError S el (toError errType) v)"

text \<open>
  The loop of \<^verbatim>\<open>showValidationErrors\<close>. \<open>None\<close> means that the loop ran to its end;
  \<open>Some (r, v)\<close> is the value returned from inside the loop, \<^verbatim>\<open>undefined\<close> for the
  bare \<^verbatim>\<open>return\<close> of a field that is neither an email nor a password.
\<close>

primrec showFirstInvalid :: "services \<Rightarrow> element list \<Rightarrow> view \<Rightarrow> (jsvalue \<times> view) option" where
  "showFirstInvalid S [] v = None"
| "showFirstInvalid S (el # els) v =
     (if \<not> isElementValid S el then
        (let fieldType = getElementType el
         in if fieldType = Some ''email'' then
              (case showEmailValidationError S el v of (msg, v') \<Rightarrow> Some (JStr msg, v'))
            else if fieldType = Some ''password'' then
              (case showPasswordValidationError S el v of (msg, v') \<Rightarrow> Some (JStr msg, v'))
            else Some (JUndefined, v))
      else showFirstInvalid S els v)"

definition showValidationErrors :: "services \<Rightarrow> hooks \<Rightarrow> view \<Rightarrow> jsvalue \<times> view" where
  "showValidationErrors S h v =
     (case showValidationErrorsStart h (hideError v) of
        (shown, v1) \<Rightarrow>
          if shown then (JUndefined, v1)
          else (case showFirstInvalid S (inputEls v1) v1 of
                  Some r \<Rightarrow> r
                | None \<Rightarrow> (JUndefined, showValidationErrorsEnd h v1)))"

section \<open>Enabling, disabling and halting\<close>

definition isSubmitButton :: "element \<Rightarrow> bool" where
  "isSubmitButton el = (tagName el = ButtonTag \<and> typeAttr el = Some ''submit'')"

definition addClass :: "string \<Rightarrow> element \<Rightarrow> element" where
  "addClass c el = (if c \<in> set (classes el) then el else el\<lparr>classes := classes el @ [c]\<rparr>)"

definition removeClass :: "string \<Rightarrow> element \<Rightarrow> element" where
  "removeClass c el = el\<lparr>classes := filter (\<lambda>x. x \<noteq> c) (classes el)\<rparr>"

definition disableForm :: "view \<Rightarrow> view" where
  "disableForm v =
     v\<lparr>elements := map (\<lambda>el. if isSubmitButton el then addClass ''disabled'' el else el) (elements v),
       isFormEnabled_flag := False\<rparr>"

definition enableForm :: "view \<Rightarrow> view" where
  "enableForm v =
     v\<lparr>elements := map (\<lambda>el. if isSubmitButton el then removeClass ''disabled'' el else el) (elements v),
       isFormEnabled_flag := True\<rparr>"

definition isFormEnabled :: "view \<Rightarrow> bool" where
  "isFormEnabled v = isFormEnabled_flag v"

definition isSubmitting :: "view \<Rightarrow> bool" where
  "isSubmitting v = isSubmitting_flag v"

definition isHalted :: "view \<Rightarrow> bool" where
  "isHalted v = isHalted_flag v"

definition halt :: "view \<Rightarrow> view" where
  "halt v =
     v\<lparr>elements := map (\<lambda>el. if tagName el \<in> {InputTag, TextareaTag, ButtonTag}
                               then el\<lparr>disabledAttr := True\<rparr> else el) (elements v),
       isHalted_flag := True\<rparr>"

definition enableSubmitIfValid :: "services \<Rightarrow> hooks \<Rightarrow> view \<Rightarrow> view" where
  "enableSubmitIfValid S h v =
     (if isSubmitting v \<or> isHalted v then v
      else (case isValid S h (hideSuccess (hideError v)) of
              (valid, v1) \<Rightarrow> if valid then enableForm v1 else disableForm v1))"

section \<open>The submission chain\<close>

text \<open>The defaults of the three hooks of the chain, as \<^verbatim>\<open>views/form\<close> defines them.\<close>

definition beforeSubmit_default :: "view \<Rightarrow> settled \<times> view" where
  "beforeSubmit_default v = (Resolved JUndefined, disableForm v)"

definition submit_default :: "view \<Rightarrow> settled \<times> view" where
  "submit_default v = (Resolved JUndefined, v)"

definition afterSubmit_default :: "jsvalue \<Rightarrow> view \<Rightarrow> settled \<times> view" where
  "afterSubmit_default result v =
     (if truthy result \<and> truthy (getProp result ''halt'') then (Resolved result, halt v)
      else if \<not> isErrorVisible v then (Resolved result, enableForm v)
      else (Resolved result, v))"

definition defaultHooks :: hooks where
  "defaultHooks =
     \<lparr>isValidStart = (\<lambda>v. (True, v)),
      isValidEnd = (\<lambda>v. (True, v)),
      showValidationErrorsStart = (\<lambda>v. (False, v)),
      showValidationErrorsEnd = (\<lambda>v. v),
      beforeSubmit = beforeSubmit_default,
      submit = submit_default,
      afterSubmit = afterSubmit_default\<rparr>"

text \<open>
  \<^verbatim>\<open>_submitForm\<close>: \<^verbatim>\<open>beforeSubmit\<close>, then \<^verbatim>\<open>submit\<close> unless the value was \<^verbatim>\<open>false\<close>,
  then the rejection handler, then \<^verbatim>\<open>afterSubmit\<close>. The two decorators around it
  (delayed-request notice, progress indicator) are not among the sources and are
  instrumentation only.
\<close>

definition submitForm :: "hooks \<Rightarrow> view \<Rightarrow> settled \<times> view" where
  "submitForm h v =
     (case beforeSubmit h v of
        (Rejected err, v1) \<Rightarrow> (Rejected err, displayError err v1)
      | (Resolved shouldSubmit, v1) \<Rightarrow>
          (case (if shouldSubmit \<noteq> JBool False then submit h v1 else (Resolved JUndefined, v1)) of
             (Rejected err, v2) \<Rightarrow> (Rejected err, displayError err v2)
           | (Resolved result, v2) \<Rightarrow> afterSubmit h result v2))"

text \<open>
  The function that \<^verbatim>\<open>validateAndSubmit\<close> wraps. Stopping the propagation of the
  DOM event, when there is one, is not part of the state.
\<close>

definition validateAndSubmit_handler :: "services \<Rightarrow> hooks \<Rightarrow> view \<Rightarrow> settled \<times> view" where
  "validateAndSubmit_handler S h v =
     (let v0 = trigger ''submitStart'' v
      in if isHalted v0 then (Resolved JUndefined, v0)
         else (case isValid S h v0 of
                 (valid, v1) \<Rightarrow>
                   if \<not> valid then
                     (case showValidationErrors S h v1 of (shown, v2) \<Rightarrow> (Rejected shown, v2))
                   else if \<not> isFormEnabled v1 then (Resolved JUndefined, v1)
                   else submitForm h (logViewEvent ''submit'' v1)))"

text \<open>
  Modelled from the spec: the decorator \<^verbatim>\<open>views/decorators/allow_only_one_submit\<close>
  is not among the sources. Reentrancy is blocked at the boundary: a call made
  while a submission is in flight is dropped silently, with no queuing and no
  error; otherwise the submission-in-progress flag is held from the start of the
  handler until its promise settles.
\<close>

definition allowOnlyOneSubmit :: "(view \<Rightarrow> settled \<times> view) \<Rightarrow> view \<Rightarrow> settled \<times> view" where
  "allowOnlyOneSubmit handler v =
     (if isSubmitting v then (Resolved JUndefined, v)
      else (case handler (v\<lparr>isSubmitting_flag := True\<rparr>) of
              (r, v') \<Rightarrow> (r, v'\<lparr>isSubmitting_flag := False\<rparr>)))"

definition validateAndSubmit :: "services \<Rightarrow> hooks \<Rightarrow> view \<Rightarrow> settled \<times> view" where
  "validateAndSubmit S h v = allowOnlyOneSubmit (validateAndSubmit_handler S h) v"

section \<open>Change tracking\<close>

text \<open>
  \<^verbatim>\<open>getFormValues\<close> fills an object key by key; assigning a key that is already
  there replaces its value. The key is \<^verbatim>\<open>name || id\<close>, and a key that is
  \<^verbatim>\<open>undefined\<close> is stored under the string \<^verbatim>\<open>"undefined"\<close>. Assigning a string
  to the key \<^verbatim>\<open>__proto__\<close> of a plain object stores nothing.
\<close>

definition elementKey :: "element \<Rightarrow> string" where
  "elementKey el =
     (case nameAttr el of
        Some n \<Rightarrow> if n \<noteq> [] then n
                  else (case idAttr el of Some i \<Rightarrow> i | None \<Rightarrow> ''undefined'')
      | None \<Rightarrow> (case idAttr el of Some i \<Rightarrow> i | None \<Rightarrow> ''undefined''))"

primrec collectValues :: "element list \<Rightarrow> (string \<times> string) list \<Rightarrow> (string \<times> string) list" where
  "collectValues [] values = values"
| "collectValues (el # els) values =
     (if \<not> novalueAttr el \<and> elementKey el \<noteq> ''__proto__''
      then collectValues els (AList.update (elementKey el) (getElementValue el) values)
      else collectValues els values)"

definition getFormValues :: "view \<Rightarrow> (string \<times> string) list" where
  "getFormValues v =
     collectValues
       (filter (\<lambda>el. tagName el \<in> {InputTag, TextareaTag, SelectTag}) (elements v)) []"

text \<open>
  \<^verbatim>\<open>_.isEqual\<close> on two plain objects of strings: the same number of keys, and every
  key of the first is a key of the second with an equal value. \<^verbatim>\<open>undefined\<close> equals
  only itself.
\<close>

definition isEqualObject :: "(string \<times> string) list \<Rightarrow> (string \<times> string) list \<Rightarrow> bool" where
  "isEqualObject a b =
     (length a = length b \<and> list_all (\<lambda>(k, x). map_of b k = Some x) a)"

fun isEqual :: "(string \<times> string) list option \<Rightarrow> (string \<times> string) list option \<Rightarrow> bool" where
  "isEqual None None = True"
| "isEqual (Some a) (Some b) = isEqualObject a b"
| "isEqual x y = False"

definition detectFormValueChanges :: "view \<Rightarrow> (string \<times> string) list option" where
  "detectFormValueChanges v =
     (let oldValues = previousFormValues v;
          newValues = getFormValues v
      in if \<not> isEqual oldValues (Some newValues) then Some newValues else None)"

definition updateFormValueChanges :: "view \<Rightarrow> (string \<times> string) list option \<times> view" where
  "updateFormValueChanges v =
     (let newValues = detectFormValueChanges v
      in (case newValues of
            Some nv \<Rightarrow> (newValues, v\<lparr>previousFormValues := Some nv\<rparr>)
          | None \<Rightarrow> (newValues, v)))"

text \<open>
  The handler of the \<^verbatim>\<open>change\<close>, \<^verbatim>\<open>input\<close> and \<^verbatim>\<open>keyup\<close> events
  (\<^verbatim>\<open>ifFormValuesChanged\<close> around \<^verbatim>\<open>enableSubmitIfValid\<close>), and \<^verbatim>\<open>afterRender\<close>, whose
  argument says whether the model has an error passed from the previous screen.
\<close>

definition ifFormValuesChanged :: "(view \<Rightarrow> view) \<Rightarrow> view \<Rightarrow> view" where
  "ifFormValuesChanged handler v =
     (case updateFormValueChanges v of
        (Some nv, v1) \<Rightarrow> handler v1
      | (None, v1) \<Rightarrow> v1)"

definition afterRender :: "services \<Rightarrow> hooks \<Rightarrow> bool \<Rightarrow> view \<Rightarrow> view" where
  "afterRender S h modelHasError v =
     (let v1 = snd (updateFormValueChanges v)
      in if \<not> modelHasError then enableSubmitIfValid S h v1 else v1)"

section \<open>The operations of a form view\<close>

text \<open>
  Every method of \<^verbatim>\<open>views/form\<close> that writes to the view, as one step on the
  state; a step keeps the state a method returns and drops its value.
\<close>

datatype operation =
    OpAfterRender bool
  | OpFormValuesChanged
  | OpEnableSubmitIfValid
  | OpDisableForm
  | OpEnableForm
  | OpValidateAndSubmit
  | OpSubmitForm
  | OpIsValid
  | OpShowValidationErrors
  | OpShowValidationError element auth_error
  | OpShowEmailValidationError element
  | OpShowPasswordValidationError element
  | OpBeforeSubmit
  | OpSubmit
  | OpAfterSubmit jsvalue
  | OpHalt
  | OpUpdateFormValueChanges

fun perform :: "services \<Rightarrow> hooks \<Rightarrow> operation \<Rightarrow> view \<Rightarrow> view" where
  "perform S h (OpAfterRender modelHasError) v = afterRender S h modelHasError v"
| "perform S h OpFormValuesChanged v = ifFormValuesChanged (enableSubmitIfValid S h) v"
| "perform S h OpEnableSubmitIfValid v = enableSubmitIfValid S h v"
| "perform S h OpDisableForm v = disableForm v"
| "perform S h OpEnableForm v = enableForm v"
| "perform S h OpValidateAndSubmit v = snd (validateAndSubmit S h v)"
| "perform S h OpSubmitForm v = snd (submitForm h v)"
| "perform S h OpIsValid v = snd (isValid S h v)"
| "perform S h OpShowValidationErrors v = snd (showValidationErrors S h v)"
| "perform S h (OpShowValidationError el err) v = snd (showValidationError S el err v)"
| "perform S h (OpShowEmailValidationError el) v = snd (showEmailValidationError S el v)"
| "perform S h (OpShowPasswordValidationError el) v = snd (showPasswordValidationError S el v)"
| "perform S h OpBeforeSubmit v = snd (beforeSubmit h v)"
| "perform S h OpSubmit v = snd (submit h v)"
| "perform S h (OpAfterSubmit result) v = snd (afterSubmit h result v)"
| "perform S h OpHalt v = halt v"
| "perform S h OpUpdateFormValueChanges v = snd (updateFormValueChanges v)"

text \<open>The hooks of a descendant view leave a halted view halted.\<close>

definition hooksKeepHalted :: "hooks \<Rightarrow> bool" where
  "hooksKeepHalted h =
     (\<forall>v. isHalted v \<longrightarrow>
        isHalted (snd (isValidStart h v)) \<and> isHalted (snd (isValidEnd h v)) \<and>
        isHalted (snd (showValidationErrorsStart h v)) \<and> isHalted (showValidationErrorsEnd h v) \<and>
        isHalted (snd (beforeSubmit h v)) \<and> isHalted (snd (submit h v)) \<and>
        (\<forall>result. isHalted (snd (afterSubmit h result v))))"

text \<open>
  At most one tooltip is on screen, and the hooks of a descendant view keep it so.
\<close>

definition atMostOneTooltip :: "view \<Rightarrow> bool" where
  "atMostOneTooltip v = (length (visibleTooltips v) \<le> 1)"

definition hooksKeepOneTooltip :: "hooks \<Rightarrow> bool" where
  "hooksKeepOneTooltip h =
     (\<forall>v. atMostOneTooltip v \<longrightarrow>
        atMostOneTooltip (snd (isValidStart h v)) \<and> atMostOneTooltip (snd (isValidEnd h v)) \<and>
        atMostOneTooltip (snd (showValidationErrorsStart h v)) \<and>
        atMostOneTooltip (showValidationErrorsEnd h v) \<and>
        atMostOneTooltip (snd (beforeSubmit h v)) \<and> atMostOneTooltip (snd (submit h v)) \<and>
        (\<forall>result. atMostOneTooltip (snd (afterSubmit h result v))))"

section \<open>The validation rule in the words of the specification\<close>

text \<open>
  The kind of a field and the rule of each kind, as the specification words them:
  an email is non-empty and has a valid format; a password is non-empty and
  valid; any other field is non-empty when required and, where the browser
  offers native constraint validation, valid by it.
\<close>

datatype fieldKind = EmailKind | PasswordKind | GenericKind

definition kindOf :: "element \<Rightarrow> fieldKind" where
  "kindOf el =
     (if getElementType el = Some ''email'' then EmailKind
      else if getElementType el = Some ''password'' then PasswordKind
      else GenericKind)"

definition passesKindRule :: "services \<Rightarrow> element \<Rightarrow> bool" where
  "passesKindRule S el =
     (case kindOf el of
        EmailKind \<Rightarrow> getElementValue el \<noteq> [] \<and> emailFormat S (getElementValue el)
      | PasswordKind \<Rightarrow> getElementValue el \<noteq> [] \<and> passwordFormat S (getElementValue el)
      | GenericKind \<Rightarrow>
          (requiredAttr el \<longrightarrow> getElementValue el \<noteq> []) \<and>
          (case validity el of Some valid \<Rightarrow> valid | None \<Rightarrow> True))"

section \<open>Sample forms\<close>

text \<open>
  Concrete collaborators and forms, for the scenarios of the specification. The
  sample email check asks for an \<^verbatim>\<open>@\<close>, the sample password check for eight
  characters, and the sample message of an error is its kind.
\<close>

definition sampleServices :: services where
  "sampleServices =
     \<lparr>emailFormat = (\<lambda>s. CHR ''@'' \<in> set s),
      passwordFormat = (\<lambda>s. 8 \<le> length s),
      toMessage = (\<lambda>e. case e of AuthError kind \<Rightarrow> kind)\<rparr>"

definition textField :: "string \<Rightarrow> string \<Rightarrow> element" where
  "textField name x =
     \<lparr>tagName = InputTag, typeAttr = Some ''text'', nameAttr = Some name, idAttr = None,
      classes = [], requiredAttr = False, novalueAttr = False, disabledAttr = False,
      inCoppa = False, val = x, validity = None\<rparr>"

definition requiredField :: "string \<Rightarrow> string \<Rightarrow> element" where
  "requiredField name x = (textField name x)\<lparr>requiredAttr := True\<rparr>"

definition emailField :: "string \<Rightarrow> element" where
  "emailField x = (textField ''email'' x)\<lparr>typeAttr := Some ''email''\<rparr>"

definition passwordField :: "string \<Rightarrow> element" where
  "passwordField x = (textField ''password'' x)\<lparr>typeAttr := Some ''password''\<rparr>"

definition coppaField :: "string \<Rightarrow> element" where
  "coppaField x = (requiredField ''age'' x)\<lparr>inCoppa := True\<rparr>"

text \<open>A freshly created view on the given elements: enabled, idle, nothing shown.\<close>

definition freshView :: "element list \<Rightarrow> view" where
  "freshView els =
     \<lparr>elements = els, isFormEnabled_flag = True, isSubmitting_flag = False,
      isHalted_flag = False, previousFormValues = None, visibleError = None,
      visibleSuccess = False, tooltips = [], visibleTooltips = [], events = []\<rparr>"

text \<open>
  Scenario A of the specification: an empty required text field, then an email
  field holding a well-formed address.
\<close>

definition scenarioA :: view where
  "scenarioA = freshView [requiredField ''name'' [], emailField ''a@b.com'']"

text \<open>Hooks for the scenarios: each differs from the defaults in one hook.\<close>

definition abortingHooks :: hooks where
  "abortingHooks = defaultHooks\<lparr>beforeSubmit := (\<lambda>v. (Resolved (JBool False), v))\<rparr>"

definition refusingHooks :: hooks where
  "refusingHooks = defaultHooks\<lparr>beforeSubmit := (\<lambda>v. (Rejected (JStr ''denied''), v))\<rparr>"

definition failingHooks :: hooks where
  "failingHooks = defaultHooks\<lparr>submit := (\<lambda>v. (Rejected (JStr ''offline''), v))\<rparr>"

definition haltingHooks :: hooks where
  "haltingHooks =
     defaultHooks\<lparr>submit := (\<lambda>v. (Resolved (JObj [(''halt'', JBool True)]), v))\<rparr>"

text \<open>
  A submit hook that, while the submission is in flight, invokes the submit entry
  point a second time and then resolves.
\<close>

definition reentrantHooks :: "services \<Rightarrow> hooks" where
  "reentrantHooks S =
     defaultHooks\<lparr>submit := (\<lambda>v. (Resolved JUndefined, snd (validateAndSubmit S defaultHooks v)))\<rparr>"

section \<open>Lemmas: validation\<close>

lemma allElementsValid_iff: "allElementsValid S els = list_all (isElementValid S) els"
  by (induction els) simp_all

lemma isElementValid_rule: "isElementValid S el = passesKindRule S el"
  by (simp add: isElementValid_def passesKindRule_def kindOf_def validateEmail_def
      validatePassword_def validateInput_def isEmailValid_def isPasswordValid_def Let_def)

lemma isValid_fst:
  "fst (isValid S h v) =
     (fst (isValidStart h v) \<and> allElementsValid S (inputEls (snd (isValidStart h v))) \<and>
      fst (isValidEnd h (snd (isValidStart h v))))"
  by (simp add: isValid_def split: prod.splits)

lemma isValid_pure:
  "isValidStart h v = (s, v) \<Longrightarrow> isValidEnd h v = (e, v) \<Longrightarrow> snd (isValid S h v) = v"
  by (simp add: isValid_def)

lemma isValid_default:
  "isValid S defaultHooks v = (list_all (passesKindRule S) (inputEls v), v)"
  by (simp add: isValid_def defaultHooks_def allElementsValid_iff isElementValid_rule [abs_def])

lemma isValid_chain_hooks [simp]:
  "isValid S (h\<lparr>beforeSubmit := b\<rparr>) = isValid S h"
  "isValid S (h\<lparr>submit := s\<rparr>) = isValid S h"
  "isValid S (h\<lparr>afterSubmit := a\<rparr>) = isValid S h"
  by (simp_all add: isValid_def fun_eq_iff split: prod.splits)

lemma inputEls_set:
  "set (inputEls v) = {el \<in> set (elements v). tagName el = InputTag \<and> \<not> inCoppa el}"
  by (auto simp: inputEls_def)

lemma inputEls_entered [simp]:
  "inputEls (trigger name v) = inputEls v"
  "inputEls (v\<lparr>isSubmitting_flag := b\<rparr>) = inputEls v"
  "inputEls (v\<lparr>isFormEnabled_flag := b\<rparr>) = inputEls v"
  "inputEls (hideError v) = inputEls v"
  by (simp_all add: inputEls_def trigger_def hideError_def)

lemma trim_empty_iff: "(trim s = []) = list_all isSpace s"
proof
  assume "trim s = []"
  then have "dropWhile isSpace (rev (dropWhile isSpace s)) = []"
    by (simp add: trim_def)
  then have "\<forall>x \<in> set (rev (dropWhile isSpace s)). isSpace x"
    by (simp only: dropWhile_eq_Nil_conv)
  then have all: "\<forall>x \<in> set (dropWhile isSpace s). isSpace x"
    by simp
  have "dropWhile isSpace s = []"
  proof (rule ccontr)
    assume ne: "dropWhile isSpace s \<noteq> []"
    then have "\<not> isSpace (hd (dropWhile isSpace s))" by (rule hd_dropWhile)
    moreover have "hd (dropWhile isSpace s) \<in> set (dropWhile isSpace s)" using ne by simp
    ultimately show False using all by blast
  qed
  then have "\<forall>x \<in> set s. isSpace x" by (simp only: dropWhile_eq_Nil_conv)
  then show "list_all isSpace s" by (simp add: list_all_iff)
next
  assume "list_all isSpace s"
  then have "\<forall>x \<in> set s. isSpace x" by (simp add: list_all_iff)
  then have empty: "dropWhile isSpace s = []" by (simp only: dropWhile_eq_Nil_conv)
  show "trim s = []" unfolding trim_def empty by simp
qed

lemma getElementValue_email: "kindOf el = EmailKind \<Longrightarrow> getElementValue el = trim (val el)"
  by (cases "val el = []") (auto simp: kindOf_def getElementValue_def trim_def Let_def split: if_splits)

lemma getElementValue_password: "kindOf el = PasswordKind \<Longrightarrow> getElementValue el = val el"
  by (auto simp: kindOf_def getElementValue_def Let_def split: if_splits)

section \<open>Lemmas: error presentation\<close>

lemma showValidationError_eq:
  "showValidationError S el err v =
     (toMessage S err,
      v\<lparr>tooltips := tooltips v @ [\<lparr>invalidEl = el, message = toMessage S err\<rparr>],
        visibleTooltips := [\<lparr>invalidEl = el, message = toMessage S err\<rparr>],
        events := events v @ [ErrorLogged err, ValidationErrorShown el (toMessage S err)]\<rparr>)"
  by (simp add: showValidationError_def renderTooltip_def logError_def Let_def)

lemma showEmailValidationError_eq:
  "showEmailValidationError S el v =
     showValidationError S el
       (toError (if getElementValue el = [] then ''EMAIL_REQUIRED'' else ''INVALID_EMAIL'')) v"
  by (simp add: showEmailValidationError_def Let_def)

lemma showPasswordValidationError_eq:
  "showPasswordValidationError S el v =
     showValidationError S el
       (toError (if getElementValue el = [] then ''PASSWORD_REQUIRED'' else ''PASSWORD_TOO_SHORT'')) v"
  by (simp add: showPasswordValidationError_def Let_def)

lemma showFirstInvalid_first:
  assumes "list_all (isElementValid S) pre" "\<not> isElementValid S el"
  shows "showFirstInvalid S (pre @ el # post) v =
     Some (if getElementType el = Some ''email''
           then (case showEmailValidationError S el v of (msg, v') \<Rightarrow> (JStr msg, v'))
           else if getElementType el = Some ''password''
           then (case showPasswordValidationError S el v of (msg, v') \<Rightarrow> (JStr msg, v'))
           else (JUndefined, v))"
  using assms by (induction pre) (simp_all add: Let_def split: prod.splits)

lemma showFirstInvalid_all_valid:
  "list_all (isElementValid S) els \<Longrightarrow> showFirstInvalid S els v = None"
  by (induction els) simp_all

text \<open>What \<^verbatim>\<open>showValidationErrors\<close> does at the first invalid field.\<close>

lemma showValidationErrors_at_first_invalid:
  assumes start: "showValidationErrorsStart h (hideError v) = (False, v1)"
    and els: "inputEls v1 = pre @ el # post"
    and pre: "list_all (isElementValid S) pre"
    and el: "\<not> isElementValid S el"
  shows "showValidationErrors S h v =
     (if kindOf el = EmailKind then
        (JStr (toMessage S (toError (if getElementValue el = [] then ''EMAIL_REQUIRED'' else ''INVALID_EMAIL''))),
         snd (showEmailValidationError S el v1))
      else if kindOf el = PasswordKind then
        (JStr (toMessage S (toError (if getElementValue el = [] then ''PASSWORD_REQUIRED'' else ''PASSWORD_TOO_SHORT''))),
         snd (showPasswordValidationError S el v1))
      else (JUndefined, v1))"
  using start els showFirstInvalid_first [OF pre el, of post v1]
  by (simp add: showValidationErrors_def kindOf_def showEmailValidationError_eq
      showPasswordValidationError_eq showValidationError_eq)

lemma showValidationErrors_chain_hooks [simp]:
  "showValidationErrors S (h\<lparr>beforeSubmit := b\<rparr>) = showValidationErrors S h"
  "showValidationErrors S (h\<lparr>submit := s\<rparr>) = showValidationErrors S h"
  "showValidationErrors S (h\<lparr>afterSubmit := a\<rparr>) = showValidationErrors S h"
  by (simp_all add: showValidationErrors_def fun_eq_iff split: prod.splits option.splits)

lemma hideError_id: "visibleError v = None \<Longrightarrow> hideError v = v"
  by (cases v) (simp add: hideError_def)

section \<open>Lemmas: change tracking\<close>

lemma distinct_collectValues:
  "distinct (map fst acc) \<Longrightarrow> distinct (map fst (collectValues els acc))"
  by (induction els arbitrary: acc) (simp_all add: distinct_update)

lemma distinct_getFormValues: "distinct (map fst (getFormValues v))"
  by (simp add: getFormValues_def distinct_collectValues)

lemma isEqualObject_refl: "distinct (map fst a) \<Longrightarrow> isEqualObject a a"
  by (auto simp: isEqualObject_def list_all_iff)

lemma isEqualObject_map_of:
  assumes "distinct (map fst a)" "distinct (map fst b)"
  shows "isEqualObject a b \<longleftrightarrow> map_of a = map_of b"
proof
  assume eq: "isEqualObject a b"
  have len: "length a = length b" and all: "\<And>k x. (k, x) \<in> set a \<Longrightarrow> map_of b k = Some x"
    using eq by (auto simp: isEqualObject_def list_all_iff)
  have sub: "fst ` set a \<subseteq> fst ` set b"
    using all by (auto dest!: map_of_SomeD)
  have "card (fst ` set a) = length a" "card (fst ` set b) = length b"
    using assms by (metis distinct_card length_map set_map)+
  then have doms: "fst ` set a = fst ` set b"
    using sub len by (simp add: card_subset_eq)
  show "map_of a = map_of b"
  proof
    fix k
    show "map_of a k = map_of b k"
    proof (cases "map_of a k")
      case None
      then have "k \<notin> fst ` set b" using doms by (simp add: map_of_eq_None_iff)
      then have "map_of b k = None" by (simp add: map_of_eq_None_iff)
      then show ?thesis using None by simp
    next
      case (Some x)
      then show ?thesis using all by (auto dest: map_of_SomeD)
    qed
  qed
next
  assume eq: "map_of a = map_of b"
  then have "fst ` set a = fst ` set b" by (metis dom_map_of_conv_image_fst)
  then have "length a = length b"
    using assms by (metis distinct_card length_map set_map)
  moreover have "\<And>k x. (k, x) \<in> set a \<Longrightarrow> map_of b k = Some x"
    using eq assms(1) by (metis map_of_is_SomeI)
  ultimately show "isEqualObject a b"
    by (auto simp: isEqualObject_def list_all_iff)
qed

section \<open>Lemmas: the submit entry point\<close>

lemma validateAndSubmit_in_flight:
  "isSubmitting v \<Longrightarrow> validateAndSubmit S h v = (Resolved JUndefined, v)"
  by (simp add: validateAndSubmit_def allowOnlyOneSubmit_def)

lemma validateAndSubmit_idle:
  "\<not> isSubmitting v \<Longrightarrow>
   validateAndSubmit S h v =
     (case validateAndSubmit_handler S h (v\<lparr>isSubmitting_flag := True\<rparr>) of
        (r, v') \<Rightarrow> (r, v'\<lparr>isSubmitting_flag := False\<rparr>))"
  by (simp add: validateAndSubmit_def allowOnlyOneSubmit_def)

lemma isHalted_entered [simp]:
  "isHalted (trigger name (v\<lparr>isSubmitting_flag := b\<rparr>)) = isHalted v"
  by (simp add: isHalted_def trigger_def)

lemma left_idle:
  "\<not> isSubmitting v \<Longrightarrow>
   (trigger name (v\<lparr>isSubmitting_flag := True\<rparr>))\<lparr>isSubmitting_flag := False\<rparr> = trigger name v"
  by (cases v) (simp add: trigger_def isSubmitting_def)

lemma validateAndSubmit_invalid:
  assumes "\<not> isSubmitting v" "\<not> isHalted v"
    and "isValid S h (trigger ''submitStart'' (v\<lparr>isSubmitting_flag := True\<rparr>)) = (False, v1)"
  shows "validateAndSubmit S h v =
     (Rejected (fst (showValidationErrors S h v1)),
      (snd (showValidationErrors S h v1))\<lparr>isSubmitting_flag := False\<rparr>)"
  using assms
  by (simp add: validateAndSubmit_idle validateAndSubmit_handler_def Let_def split: prod.splits)

lemma validateAndSubmit_disabled:
  assumes "\<not> isSubmitting v" "\<not> isHalted v"
    and "isValid S h (trigger ''submitStart'' (v\<lparr>isSubmitting_flag := True\<rparr>)) = (True, v1)"
    and "\<not> isFormEnabled v1"
  shows "validateAndSubmit S h v = (Resolved JUndefined, v1\<lparr>isSubmitting_flag := False\<rparr>)"
  using assms
  by (simp add: validateAndSubmit_idle validateAndSubmit_handler_def Let_def)

lemma validateAndSubmit_halted:
  assumes "\<not> isSubmitting v" "isHalted v"
  shows "validateAndSubmit S h v = (Resolved JUndefined, trigger ''submitStart'' v)"
proof -
  have "(trigger ''submitStart'' (v\<lparr>isSubmitting_flag := True\<rparr>))\<lparr>isSubmitting_flag := False\<rparr>
      = trigger ''submitStart'' v"
    using assms(1) by (cases v) (simp add: trigger_def isSubmitting_def)
  then show ?thesis
    using assms by (simp add: validateAndSubmit_idle validateAndSubmit_handler_def Let_def)
qed

lemma afterSubmit_default_halts:
  "truthy result \<Longrightarrow> truthy (getProp result ''halt'') \<Longrightarrow>
   afterSubmit_default result v = (Resolved result, halt v)"
  by (simp add: afterSubmit_default_def)

section \<open>Lemmas: the halted state\<close>

lemma isHalted_simps [simp]:
  "isHalted (hideError v) = isHalted v"
  "isHalted (hideSuccess v) = isHalted v"
  "isHalted (displayError err v) = isHalted v"
  "isHalted (trigger name v) = isHalted v"
  "isHalted (logViewEvent name v) = isHalted v"
  "isHalted (logError e v) = isHalted v"
  "isHalted (disableForm v) = isHalted v"
  "isHalted (enableForm v) = isHalted v"
  "isHalted (halt v) = True"
  "isHalted (v\<lparr>isSubmitting_flag := b\<rparr>) = isHalted v"
  "isHalted (v\<lparr>previousFormValues := p\<rparr>) = isHalted v"
  by (simp_all add: isHalted_def hideError_def hideSuccess_def displayError_def trigger_def
      logViewEvent_def logError_def disableForm_def enableForm_def halt_def)

lemma isHalted_showValidationError [simp]:
  "isHalted (snd (showValidationError S el err v)) = isHalted v"
  by (simp add: showValidationError_eq isHalted_def)

lemma isHalted_showFirstInvalid:
  "showFirstInvalid S els v = Some (r, v') \<Longrightarrow> isHalted v' = isHalted v"
  by (induction els)
    (auto simp: Let_def showEmailValidationError_eq showPasswordValidationError_eq
      showValidationError_eq isHalted_def split: if_splits)

lemma hooksKeepHalted_D:
  assumes "hooksKeepHalted h" "isHalted v"
  shows "isHalted (snd (isValidStart h v))" "isHalted (snd (isValidEnd h v))"
    "isHalted (snd (showValidationErrorsStart h v))" "isHalted (showValidationErrorsEnd h v)"
    "isHalted (snd (beforeSubmit h v))" "isHalted (snd (submit h v))"
    "isHalted (snd (afterSubmit h result v))"
  using assms by (simp_all add: hooksKeepHalted_def)

lemma isHalted_isValid:
  assumes "hooksKeepHalted h" "isHalted v"
  shows "isHalted (snd (isValid S h v))"
proof -
  obtain s v1 where start: "isValidStart h v = (s, v1)" by (cases "isValidStart h v")
  have v1: "isHalted v1" using hooksKeepHalted_D(1) [OF assms] start by simp
  have "isHalted (snd (isValidEnd h v1))" using hooksKeepHalted_D(2) [OF assms(1) v1] .
  then show ?thesis using start v1 by (simp add: isValid_def)
qed

lemma isHalted_showValidationErrors:
  assumes "hooksKeepHalted h" "isHalted v"
  shows "isHalted (snd (showValidationErrors S h v))"
proof -
  obtain s v1 where start: "showValidationErrorsStart h (hideError v) = (s, v1)"
    by (cases "showValidationErrorsStart h (hideError v)")
  have v1: "isHalted v1"
    using hooksKeepHalted_D(3) [OF assms(1), of "hideError v"] assms(2) start by simp
  have fin: "isHalted (showValidationErrorsEnd h v1)"
    using hooksKeepHalted_D(4) [OF assms(1) v1] .
  show ?thesis
    using start v1 fin
    by (auto simp: showValidationErrors_def dest: isHalted_showFirstInvalid split: option.splits)
qed

lemma isHalted_submitForm:
  assumes "hooksKeepHalted h" "isHalted v"
  shows "isHalted (snd (submitForm h v))"
proof -
  obtain r1 v1 where before: "beforeSubmit h v = (r1, v1)" by (cases "beforeSubmit h v")
  have v1: "isHalted v1" using hooksKeepHalted_D(5) [OF assms] before by simp
  obtain r2 v2 where sub: "submit h v1 = (r2, v2)" by (cases "submit h v1")
  have v2: "isHalted v2" using hooksKeepHalted_D(6) [OF assms(1) v1] sub by simp
  have after: "\<And>result w. isHalted w \<Longrightarrow> isHalted (snd (afterSubmit h result w))"
    using hooksKeepHalted_D(7) [OF assms(1)] by simp
  show ?thesis
    using before sub v1 v2 after
    by (auto simp: submitForm_def split: settled.splits prod.splits if_splits)
qed

lemma isHalted_validateAndSubmit:
  assumes "isHalted v"
  shows "isHalted (snd (validateAndSubmit S h v))"
  using assms
  by (cases "isSubmitting v") (simp_all add: validateAndSubmit_in_flight validateAndSubmit_halted)

lemma enableSubmitIfValid_halted: "isHalted v \<Longrightarrow> enableSubmitIfValid S h v = v"
  by (simp add: enableSubmitIfValid_def)

lemma isHalted_updateFormValueChanges [simp]:
  "isHalted (snd (updateFormValueChanges v)) = isHalted v"
  by (simp add: updateFormValueChanges_def Let_def split: option.splits)

lemma isHalted_perform:
  assumes "hooksKeepHalted h" "isHalted v"
  shows "isHalted (perform S h op v)"
proof (cases op)
  case (OpAfterRender modelHasError)
  then show ?thesis using assms(2) by (simp add: afterRender_def Let_def enableSubmitIfValid_halted)
next
  case OpFormValuesChanged
  have "isHalted (snd (updateFormValueChanges v))" using assms(2) by simp
  then show ?thesis
    using OpFormValuesChanged
    by (cases "updateFormValueChanges v")
      (auto simp: ifFormValuesChanged_def enableSubmitIfValid_halted split: option.splits)
next
  case OpEnableSubmitIfValid
  then show ?thesis using assms(2) by (simp add: enableSubmitIfValid_halted)
next
  case OpValidateAndSubmit
  then show ?thesis using assms(2) by (simp add: isHalted_validateAndSubmit)
next
  case OpSubmitForm
  then show ?thesis using assms by (simp add: isHalted_submitForm)
next
  case OpIsValid
  then show ?thesis using assms by (simp add: isHalted_isValid)
next
  case OpShowValidationErrors
  then show ?thesis using assms by (simp add: isHalted_showValidationErrors)
next
  case (OpShowEmailValidationError el)
  then show ?thesis using assms(2) by (simp add: showEmailValidationError_eq)
next
  case (OpShowPasswordValidationError el)
  then show ?thesis using assms(2) by (simp add: showPasswordValidationError_eq)
next
  case OpBeforeSubmit
  then show ?thesis using hooksKeepHalted_D(5) [OF assms] by simp
next
  case OpSubmit
  then show ?thesis using hooksKeepHalted_D(6) [OF assms] by simp
next
  case (OpAfterSubmit result)
  then show ?thesis using hooksKeepHalted_D(7) [OF assms] by simp
qed (use assms(2) in simp_all)

lemma isHalted_run:
  "hooksKeepHalted h \<Longrightarrow> isHalted v \<Longrightarrow> isHalted (fold (perform S h) ops v)"
  by (induction ops arbitrary: v) (simp_all add: isHalted_perform)

section \<open>Lemmas: the visible tooltip\<close>

lemma atMostOneTooltip_simps [simp]:
  "atMostOneTooltip (hideError v) = atMostOneTooltip v"
  "atMostOneTooltip (hideSuccess v) = atMostOneTooltip v"
  "atMostOneTooltip (displayError err v) = atMostOneTooltip v"
  "atMostOneTooltip (trigger name v) = atMostOneTooltip v"
  "atMostOneTooltip (logViewEvent name v) = atMostOneTooltip v"
  "atMostOneTooltip (logError e v) = atMostOneTooltip v"
  "atMostOneTooltip (disableForm v) = atMostOneTooltip v"
  "atMostOneTooltip (enableForm v) = atMostOneTooltip v"
  "atMostOneTooltip (halt v) = atMostOneTooltip v"
  "atMostOneTooltip (renderTooltip t v) = True"
  "atMostOneTooltip (v\<lparr>isSubmitting_flag := b\<rparr>) = atMostOneTooltip v"
  "atMostOneTooltip (v\<lparr>previousFormValues := p\<rparr>) = atMostOneTooltip v"
  by (simp_all add: atMostOneTooltip_def hideError_def hideSuccess_def displayError_def
      trigger_def logViewEvent_def logError_def disableForm_def enableForm_def halt_def
      renderTooltip_def)

lemma atMostOneTooltip_showValidationError [simp]:
  "atMostOneTooltip (snd (showValidationError S el err v))"
  by (simp add: showValidationError_eq atMostOneTooltip_def)

lemma atMostOneTooltip_showFirstInvalid:
  "showFirstInvalid S els v = Some (r, v') \<Longrightarrow> atMostOneTooltip v \<Longrightarrow> atMostOneTooltip v'"
  by (induction els)
    (auto simp: Let_def showEmailValidationError_eq showPasswordValidationError_eq
      showValidationError_eq atMostOneTooltip_def split: if_splits)

lemma hooksKeepOneTooltip_D:
  assumes "hooksKeepOneTooltip h" "atMostOneTooltip v"
  shows "atMostOneTooltip (snd (isValidStart h v))" "atMostOneTooltip (snd (isValidEnd h v))"
    "atMostOneTooltip (snd (showValidationErrorsStart h v))"
    "atMostOneTooltip (showValidationErrorsEnd h v)"
    "atMostOneTooltip (snd (beforeSubmit h v))" "atMostOneTooltip (snd (submit h v))"
    "atMostOneTooltip (snd (afterSubmit h result v))"
  using assms by (simp_all add: hooksKeepOneTooltip_def)

lemma atMostOneTooltip_isValid:
  assumes "hooksKeepOneTooltip h" "atMostOneTooltip v"
  shows "atMostOneTooltip (snd (isValid S h v))"
proof -
  obtain s v1 where start: "isValidStart h v = (s, v1)" by (cases "isValidStart h v")
  have v1: "atMostOneTooltip v1" using hooksKeepOneTooltip_D(1) [OF assms] start by simp
  have "atMostOneTooltip (snd (isValidEnd h v1))" using hooksKeepOneTooltip_D(2) [OF assms(1) v1] .
  then show ?thesis using start v1 by (simp add: isValid_def)
qed

lemma atMostOneTooltip_showValidationErrors:
  assumes "hooksKeepOneTooltip h" "atMostOneTooltip v"
  shows "atMostOneTooltip (snd (showValidationErrors S h v))"
proof -
  obtain s v1 where start: "showValidationErrorsStart h (hideError v) = (s, v1)"
    by (cases "showValidationErrorsStart h (hideError v)")
  have v1: "atMostOneTooltip v1"
    using hooksKeepOneTooltip_D(3) [OF assms(1), of "hideError v"] assms(2) start by simp
  have fin: "atMostOneTooltip (showValidationErrorsEnd h v1)"
    using hooksKeepOneTooltip_D(4) [OF assms(1) v1] .
  show ?thesis
    using start v1 fin
    by (auto simp: showValidationErrors_def dest: atMostOneTooltip_showFirstInvalid
        split: option.splits)
qed

lemma atMostOneTooltip_submitForm:
  assumes "hooksKeepOneTooltip h" "atMostOneTooltip v"
  shows "atMostOneTooltip (snd (submitForm h v))"
proof -
  obtain r1 v1 where before: "beforeSubmit h v = (r1, v1)" by (cases "beforeSubmit h v")
  have v1: "atMostOneTooltip v1" using hooksKeepOneTooltip_D(5) [OF assms] before by simp
  obtain r2 v2 where sub: "submit h v1 = (r2, v2)" by (cases "submit h v1")
  have v2: "atMostOneTooltip v2" using hooksKeepOneTooltip_D(6) [OF assms(1) v1] sub by simp
  have after: "\<And>result w. atMostOneTooltip w \<Longrightarrow> atMostOneTooltip (snd (afterSubmit h result w))"
    using hooksKeepOneTooltip_D(7) [OF assms(1)] by simp
  show ?thesis
    using before sub v1 v2 after
    by (auto simp: submitForm_def split: settled.splits prod.splits if_splits)
qed

lemma atMostOneTooltip_handler:
  assumes "hooksKeepOneTooltip h" "atMostOneTooltip v"
  shows "atMostOneTooltip (snd (validateAndSubmit_handler S h v))"
proof -
  let ?v0 = "trigger ''submitStart'' v"
  have v0: "atMostOneTooltip ?v0" using assms(2) by simp
  obtain ok v1 where valid: "isValid S h ?v0 = (ok, v1)" by (cases "isValid S h ?v0")
  have v1: "atMostOneTooltip v1"
    using atMostOneTooltip_isValid [OF assms(1) v0, of S] valid by simp
  have shown: "atMostOneTooltip (snd (showValidationErrors S h v1))"
    using atMostOneTooltip_showValidationErrors [OF assms(1) v1] .
  have sent: "atMostOneTooltip (snd (submitForm h (logViewEvent ''submit'' v1)))"
    using atMostOneTooltip_submitForm [OF assms(1), of "logViewEvent ''submit'' v1"] v1 by simp
  show ?thesis
    using v0 valid v1 shown sent
    by (auto simp: validateAndSubmit_handler_def Let_def split: prod.splits)
qed

lemma atMostOneTooltip_validateAndSubmit:
  assumes "hooksKeepOneTooltip h" "atMostOneTooltip v"
  shows "atMostOneTooltip (snd (validateAndSubmit S h v))"
proof (cases "isSubmitting v")
  case True
  then show ?thesis using assms(2) by (simp add: validateAndSubmit_in_flight)
next
  case False
  have "atMostOneTooltip (snd (validateAndSubmit_handler S h (v\<lparr>isSubmitting_flag := True\<rparr>)))"
    using atMostOneTooltip_handler [OF assms(1), of "v\<lparr>isSubmitting_flag := True\<rparr>"] assms(2)
    by simp
  then show ?thesis
    using False by (auto simp: validateAndSubmit_idle split: prod.splits)
qed

lemma atMostOneTooltip_enableSubmitIfValid:
  assumes "hooksKeepOneTooltip h" "atMostOneTooltip v"
  shows "atMostOneTooltip (enableSubmitIfValid S h v)"
proof -
  have "atMostOneTooltip (snd (isValid S h (hideSuccess (hideError v))))"
    using atMostOneTooltip_isValid [OF assms(1), of "hideSuccess (hideError v)"] assms(2) by simp
  then show ?thesis
    using assms(2) by (auto simp: enableSubmitIfValid_def split: prod.splits)
qed

lemma atMostOneTooltip_updateFormValueChanges [simp]:
  "atMostOneTooltip (snd (updateFormValueChanges v)) = atMostOneTooltip v"
  by (simp add: updateFormValueChanges_def Let_def split: option.splits)

lemma atMostOneTooltip_perform:
  assumes "hooksKeepOneTooltip h" "atMostOneTooltip v"
  shows "atMostOneTooltip (perform S h op v)"
proof (cases op)
  case (OpAfterRender modelHasError)
  then show ?thesis
    using assms
    by (simp add: afterRender_def Let_def atMostOneTooltip_enableSubmitIfValid)
next
  case OpFormValuesChanged
  have "atMostOneTooltip (snd (updateFormValueChanges v))" using assms(2) by simp
  then show ?thesis
    using OpFormValuesChanged assms(1)
    by (cases "updateFormValueChanges v")
      (auto simp: ifFormValuesChanged_def atMostOneTooltip_enableSubmitIfValid
        split: option.splits)
next
  case OpEnableSubmitIfValid
  then show ?thesis using assms by (simp add: atMostOneTooltip_enableSubmitIfValid)
next
  case OpValidateAndSubmit
  then show ?thesis using assms by (simp add: atMostOneTooltip_validateAndSubmit)
next
  case OpSubmitForm
  then show ?thesis using assms by (simp add: atMostOneTooltip_submitForm)
next
  case OpIsValid
  then show ?thesis using assms by (simp add: atMostOneTooltip_isValid)
next
  case OpShowValidationErrors
  then show ?thesis using assms by (simp add: atMostOneTooltip_showValidationErrors)
next
  case (OpShowEmailValidationError el)
  then show ?thesis by (simp add: showEmailValidationError_eq)
next
  case (OpShowPasswordValidationError el)
  then show ?thesis by (simp add: showPasswordValidationError_eq)
next
  case OpBeforeSubmit
  then show ?thesis using hooksKeepOneTooltip_D(5) [OF assms] by simp
next
  case OpSubmit
  then show ?thesis using hooksKeepOneTooltip_D(6) [OF assms] by simp
next
  case (OpAfterSubmit result)
  then show ?thesis using hooksKeepOneTooltip_D(7) [OF assms] by simp
qed (use assms(2) in simp_all)

lemma atMostOneTooltip_run:
  "hooksKeepOneTooltip h \<Longrightarrow> atMostOneTooltip v \<Longrightarrow>
   atMostOneTooltip (fold (perform S h) ops v)"
  by (induction ops arbitrary: v) (simp_all add: atMostOneTooltip_perform)

section \<open>Lemmas: the sample forms\<close>

lemmas sample_defs =
  sampleServices_def textField_def requiredField_def emailField_def passwordField_def
  coppaField_def freshView_def scenarioA_def

lemmas element_defs =
  getElementType_def getElementValue_def trim_def isSpace_def kindOf_def passesKindRule_def
  inputEls_def

lemma freshView_idle [simp]:
  "\<not> isSubmitting (freshView els)" "\<not> isHalted (freshView els)" "isFormEnabled (freshView els)"
  "hideError (freshView els) = freshView els"
  by (simp_all add: freshView_def isSubmitting_def isHalted_def isFormEnabled_def hideError_def)

lemma sample_validity [simp]:
  "passesKindRule sampleServices (emailField ''a@b.com'')"
  "\<not> passesKindRule sampleServices (emailField ''not-an-email'')"
  "\<not> passesKindRule sampleServices (requiredField ''name'' [])"
  "kindOf (emailField x) = EmailKind"
  "kindOf (requiredField n x) = GenericKind"
  by (simp_all add: sample_defs element_defs)

lemma sample_values [simp]:
  "getElementValue (emailField ''not-an-email'') = ''not-an-email''"
  by (simp add: sample_defs element_defs)

lemma sample_message [simp]: "toMessage sampleServices (toError kind) = kind"
  by (simp add: sampleServices_def toError_def)

lemma inputEls_sample [simp]:
  "inputEls (freshView [emailField x]) = [emailField x]"
  "inputEls scenarioA = [requiredField ''name'' [], emailField ''a@b.com'']"
  by (simp_all add: sample_defs inputEls_def)

lemma default_start [simp]: "showValidationErrorsStart defaultHooks w = (False, w)"
  by (simp add: defaultHooks_def)

lemma hooksKeepHalted_halting: "hooksKeepHalted haltingHooks"
  by (simp add: hooksKeepHalted_def haltingHooks_def defaultHooks_def beforeSubmit_default_def
      submit_default_def afterSubmit_default_def)

lemma hooksKeepOneTooltip_default: "hooksKeepOneTooltip defaultHooks"
  by (simp add: hooksKeepOneTooltip_def defaultHooks_def beforeSubmit_default_def
      submit_default_def afterSubmit_default_def)


lemma sample_password_kind [simp]: "kindOf (passwordField x) = PasswordKind"
  by (simp add: sample_defs element_defs)

section \<open>Invalid forms are rejected\<close>

text \<open>
  Claim C1, as amended. For a view that is not halted and has no submission in
  flight, when \<^verbatim>\<open>isValid\<close> is false \<^verbatim>\<open>validateAndSubmit\<close> runs
  \<^verbatim>\<open>showValidationErrors\<close> and rejects with the value it returns, and none of
  \<^verbatim>\<open>beforeSubmit\<close>, \<^verbatim>\<open>submit\<close> and \<^verbatim>\<open>afterSubmit\<close> is invoked (the outcome is the same
  whatever they are). The rejection value is the message of the one tooltip
  created when the first invalid input is an email or a password field; it is
  \<^verbatim>\<open>undefined\<close> when that input is of another kind (no tooltip is created), when
  \<^verbatim>\<open>showValidationErrorsStart\<close> returns a truthy value, and when no input is
  invalid.
\<close>
theorem validateAndSubmit_rejects_invalid:
  assumes idle: "\<not> isSubmitting v" and live: "\<not> isHalted v"
    and invalid: "isValid S h (trigger ''submitStart'' (v\<lparr>isSubmitting_flag := True\<rparr>)) = (False, v1)"
  shows "validateAndSubmit S h v =
           (Rejected (fst (showValidationErrors S h v1)),
            (snd (showValidationErrors S h v1))\<lparr>isSubmitting_flag := False\<rparr>)
         \<and> (\<forall>b s a. validateAndSubmit S (h\<lparr>beforeSubmit := b, submit := s, afterSubmit := a\<rparr>) v =
              validateAndSubmit S h v)
         \<and> (showValidationErrorsStart h (hideError v1) = (False, v2) \<and>
            inputEls v2 = pre @ el # post \<and> list_all (isElementValid S) pre \<and>
            \<not> isElementValid S el \<and> kindOf el = EmailKind \<longrightarrow>
              fst (validateAndSubmit S h v) =
                Rejected (JStr (toMessage S (toError
                  (if getElementValue el = [] then ''EMAIL_REQUIRED'' else ''INVALID_EMAIL''))))
              \<and> tooltips (snd (validateAndSubmit S h v)) =
                tooltips v2 @ [\<lparr>invalidEl = el, message = toMessage S (toError
                  (if getElementValue el = [] then ''EMAIL_REQUIRED'' else ''INVALID_EMAIL''))\<rparr>])
         \<and> (showValidationErrorsStart h (hideError v1) = (False, v2) \<and>
            inputEls v2 = pre @ el # post \<and> list_all (isElementValid S) pre \<and>
            \<not> isElementValid S el \<and> kindOf el = PasswordKind \<longrightarrow>
              fst (validateAndSubmit S h v) =
                Rejected (JStr (toMessage S (toError
                  (if getElementValue el = [] then ''PASSWORD_REQUIRED'' else ''PASSWORD_TOO_SHORT''))))
              \<and> tooltips (snd (validateAndSubmit S h v)) =
                tooltips v2 @ [\<lparr>invalidEl = el, message = toMessage S (toError
                  (if getElementValue el = [] then ''PASSWORD_REQUIRED''
                   else ''PASSWORD_TOO_SHORT''))\<rparr>])
         \<and> (showValidationErrorsStart h (hideError v1) = (False, v2) \<and>
            inputEls v2 = pre @ el # post \<and> list_all (isElementValid S) pre \<and>
            \<not> isElementValid S el \<and> kindOf el = GenericKind \<longrightarrow>
              validateAndSubmit S h v = (Rejected JUndefined, v2\<lparr>isSubmitting_flag := False\<rparr>))
         \<and> (showValidationErrorsStart h (hideError v1) = (True, v2) \<longrightarrow>
              validateAndSubmit S h v = (Rejected JUndefined, v2\<lparr>isSubmitting_flag := False\<rparr>))
         \<and> (showValidationErrorsStart h (hideError v1) = (False, v2) \<and>
            list_all (isElementValid S) (inputEls v2) \<longrightarrow>
              validateAndSubmit S h v =
                (Rejected JUndefined, (showValidationErrorsEnd h v2)\<lparr>isSubmitting_flag := False\<rparr>))"
proof -
  note main = validateAndSubmit_invalid [OF idle live invalid]
  have indep: "\<forall>b s a. validateAndSubmit S (h\<lparr>beforeSubmit := b, submit := s, afterSubmit := a\<rparr>) v =
      validateAndSubmit S h v"
  proof (intro allI)
    fix b s a
    have "isValid S (h\<lparr>beforeSubmit := b, submit := s, afterSubmit := a\<rparr>)
        (trigger ''submitStart'' (v\<lparr>isSubmitting_flag := True\<rparr>)) = (False, v1)"
      using invalid by simp
    from validateAndSubmit_invalid [OF idle live this] main
    show "validateAndSubmit S (h\<lparr>beforeSubmit := b, submit := s, afterSubmit := a\<rparr>) v =
        validateAndSubmit S h v"
      by simp
  qed
  have email: "showValidationErrorsStart h (hideError v1) = (False, v2) \<and>
            inputEls v2 = pre @ el # post \<and> list_all (isElementValid S) pre \<and>
            \<not> isElementValid S el \<and> kindOf el = EmailKind \<longrightarrow>
              fst (validateAndSubmit S h v) =
                Rejected (JStr (toMessage S (toError
                  (if getElementValue el = [] then ''EMAIL_REQUIRED'' else ''INVALID_EMAIL''))))
              \<and> tooltips (snd (validateAndSubmit S h v)) =
                tooltips v2 @ [\<lparr>invalidEl = el, message = toMessage S (toError
                  (if getElementValue el = [] then ''EMAIL_REQUIRED'' else ''INVALID_EMAIL''))\<rparr>]"
    using main showValidationErrors_at_first_invalid [of h v1 v2 pre el post S]
    by (simp add: showEmailValidationError_eq showValidationError_eq)
  have password: "showValidationErrorsStart h (hideError v1) = (False, v2) \<and>
            inputEls v2 = pre @ el # post \<and> list_all (isElementValid S) pre \<and>
            \<not> isElementValid S el \<and> kindOf el = PasswordKind \<longrightarrow>
              fst (validateAndSubmit S h v) =
                Rejected (JStr (toMessage S (toError
                  (if getElementValue el = [] then ''PASSWORD_REQUIRED'' else ''PASSWORD_TOO_SHORT''))))
              \<and> tooltips (snd (validateAndSubmit S h v)) =
                tooltips v2 @ [\<lparr>invalidEl = el, message = toMessage S (toError
                  (if getElementValue el = [] then ''PASSWORD_REQUIRED''
                   else ''PASSWORD_TOO_SHORT''))\<rparr>]"
    using main showValidationErrors_at_first_invalid [of h v1 v2 pre el post S]
    by (simp add: showPasswordValidationError_eq showValidationError_eq)
  have generic: "showValidationErrorsStart h (hideError v1) = (False, v2) \<and>
            inputEls v2 = pre @ el # post \<and> list_all (isElementValid S) pre \<and>
            \<not> isElementValid S el \<and> kindOf el = GenericKind \<longrightarrow>
              validateAndSubmit S h v = (Rejected JUndefined, v2\<lparr>isSubmitting_flag := False\<rparr>)"
    using main showValidationErrors_at_first_invalid [of h v1 v2 pre el post S]
    by simp
  have suppressed: "showValidationErrorsStart h (hideError v1) = (True, v2) \<longrightarrow>
              validateAndSubmit S h v = (Rejected JUndefined, v2\<lparr>isSubmitting_flag := False\<rparr>)"
    using main by (simp add: showValidationErrors_def)
  have none: "showValidationErrorsStart h (hideError v1) = (False, v2) \<and>
            list_all (isElementValid S) (inputEls v2) \<longrightarrow>
              validateAndSubmit S h v =
                (Rejected JUndefined, (showValidationErrorsEnd h v2)\<lparr>isSubmitting_flag := False\<rparr>)"
    using main by (simp add: showValidationErrors_def showFirstInvalid_all_valid)
  show ?thesis
    using main indep email password generic suppressed none by blast
qed

text \<open>
  A form with an invalid email is rejected with the message of its tooltip;
  Scenario A's form is rejected with \<^verbatim>\<open>undefined\<close>.
\<close>
theorem validateAndSubmit_rejects_invalid_witness:
  "fst (validateAndSubmit sampleServices defaultHooks (freshView [emailField ''not-an-email''])) =
     Rejected (JStr ''INVALID_EMAIL'')
   \<and> tooltips (snd (validateAndSubmit sampleServices defaultHooks
         (freshView [emailField ''not-an-email'']))) =
     [\<lparr>invalidEl = emailField ''not-an-email'', message = ''INVALID_EMAIL''\<rparr>]
   \<and> validateAndSubmit sampleServices defaultHooks scenarioA =
     (Rejected JUndefined, trigger ''submitStart'' scenarioA)"
proof -
  let ?S = sampleServices
  let ?bad = "freshView [emailField ''not-an-email'']"
  let ?badIn = "trigger ''submitStart'' (?bad\<lparr>isSubmitting_flag := True\<rparr>)"
  let ?aIn = "trigger ''submitStart'' (scenarioA\<lparr>isSubmitting_flag := True\<rparr>)"
  have idle: "\<not> isSubmitting ?bad" "\<not> isHalted ?bad"
    "\<not> isSubmitting scenarioA" "\<not> isHalted scenarioA"
    by (simp_all add: scenarioA_def)
  have invalid: "isValid ?S defaultHooks ?badIn = (False, ?badIn)"
    "isValid ?S defaultHooks ?aIn = (False, ?aIn)"
    by (simp_all add: isValid_default)
  have hidden: "hideError ?badIn = ?badIn" "hideError ?aIn = ?aIn"
    by (simp_all add: hideError_id trigger_def freshView_def scenarioA_def)
  have start: "showValidationErrorsStart defaultHooks (hideError ?badIn) = (False, ?badIn)"
    "showValidationErrorsStart defaultHooks (hideError ?aIn) = (False, ?aIn)"
    by (simp_all add: hidden)
  have els: "inputEls ?badIn = [] @ emailField ''not-an-email'' # []"
    "inputEls ?aIn = [] @ requiredField ''name'' [] # [emailField ''a@b.com'']"
    by simp_all
  have bad: "\<not> isElementValid ?S (emailField ''not-an-email'')"
    "\<not> isElementValid ?S (requiredField ''name'' [])"
    by (simp_all add: isElementValid_rule)
  have a: "fst (validateAndSubmit ?S defaultHooks ?bad) = Rejected (JStr ''INVALID_EMAIL'')
      \<and> tooltips (snd (validateAndSubmit ?S defaultHooks ?bad)) =
        [\<lparr>invalidEl = emailField ''not-an-email'', message = ''INVALID_EMAIL''\<rparr>]"
    using validateAndSubmit_rejects_invalid [OF idle(1) idle(2) invalid(1), where ?v2.0 = ?badIn
        and pre = "[]" and el = "emailField ''not-an-email''" and post = "[]",
        THEN conjunct2, THEN conjunct2, THEN conjunct1] start(1) els(1) bad(1)
    by (simp add: trigger_def freshView_def)
  have b: "validateAndSubmit ?S defaultHooks scenarioA =
      (Rejected JUndefined, trigger ''submitStart'' scenarioA)"
    using validateAndSubmit_rejects_invalid [OF idle(3) idle(4) invalid(2), where ?v2.0 = ?aIn
        and pre = "[]" and el = "requiredField ''name'' []" and post = "[emailField ''a@b.com'']",
        THEN conjunct2, THEN conjunct2, THEN conjunct2, THEN conjunct2, THEN conjunct1]
      start(2) els(2) bad(2) idle(3)
    by (simp add: left_idle)
  show ?thesis using a b by blast
qed

text \<open>
  The claim as stated fails on Scenario A: the form is invalid and not halted, the
  call rejects with \<^verbatim>\<open>undefined\<close>, and no message is displayed.
\<close>
theorem validateAndSubmit_generic_field_counterexample:
  "\<not> isHalted scenarioA
   \<and> \<not> isSubmitting scenarioA
   \<and> fst (isValid sampleServices defaultHooks scenarioA) = False
   \<and> fst (validateAndSubmit sampleServices defaultHooks scenarioA) = Rejected JUndefined
   \<and> tooltips (snd (validateAndSubmit sampleServices defaultHooks scenarioA)) = []
   \<and> visibleError (snd (validateAndSubmit sampleServices defaultHooks scenarioA)) = None"
proof -
  let ?S = sampleServices
  let ?aIn = "trigger ''submitStart'' (scenarioA\<lparr>isSubmitting_flag := True\<rparr>)"
  have idle: "\<not> isSubmitting scenarioA" "\<not> isHalted scenarioA"
    by (simp_all add: scenarioA_def)
  have invalid: "isValid ?S defaultHooks ?aIn = (False, ?aIn)"
    "isValid ?S defaultHooks scenarioA = (False, scenarioA)"
    by (simp_all add: isValid_default)
  have hidden: "hideError ?aIn = ?aIn"
    by (simp add: hideError_id trigger_def freshView_def scenarioA_def)
  have "showFirstInvalid ?S (inputEls ?aIn) ?aIn = Some (JUndefined, ?aIn)"
    by (simp add: isElementValid_rule Let_def)
      (simp add: requiredField_def textField_def getElementType_def)
  then have "showValidationErrors ?S defaultHooks ?aIn = (JUndefined, ?aIn)"
    by (simp add: showValidationErrors_def hidden)
  then have "validateAndSubmit ?S defaultHooks scenarioA =
      (Rejected JUndefined, trigger ''submitStart'' scenarioA)"
    using validateAndSubmit_invalid [OF idle invalid(1)] idle(1) by (simp add: left_idle)
  then show ?thesis
    using idle invalid(2) by (simp add: trigger_def scenarioA_def freshView_def)
qed

section \<open>The first invalid field\<close>

text \<open>
  Claim C2, as amended. With a \<^verbatim>\<open>showValidationErrorsStart\<close> hook that returns a falsy
  value (the default), \<^verbatim>\<open>showValidationErrors\<close> walks the inputs outside \<^verbatim>\<open>#coppa\<close> in
  document order and stops at the first invalid one. If that is an email field it
  renders exactly one tooltip for it, carrying \<^verbatim>\<open>EMAIL_REQUIRED\<close> or
  \<^verbatim>\<open>INVALID_EMAIL\<close>; if it is a password field, exactly one tooltip carrying
  \<^verbatim>\<open>PASSWORD_REQUIRED\<close> or \<^verbatim>\<open>PASSWORD_TOO_SHORT\<close>; which of the two is decided by
  whether the value \<^verbatim>\<open>getElementValue\<close> reads is empty. If it is a field of any other
  kind, no tooltip is rendered and \<^verbatim>\<open>undefined\<close> is returned, the view being left as
  the start hook left it. Never more than one tooltip is visible at a time: the
  call leaves at most one on screen, and so does every sequence of operations of
  the form view, as long as the hooks of the descendant view do.
\<close>
theorem showValidationErrors_first_invalid:
  assumes start: "showValidationErrorsStart h (hideError v) = (False, v1)"
    and els: "inputEls v1 = pre @ el # post"
    and pre: "list_all (isElementValid S) pre"
    and el: "\<not> isElementValid S el"
  shows "(kindOf el = EmailKind \<longrightarrow>
           showValidationErrors S h v =
             (JStr (toMessage S (toError
                (if getElementValue el = [] then ''EMAIL_REQUIRED'' else ''INVALID_EMAIL''))),
              snd (showEmailValidationError S el v1))
           \<and> tooltips (snd (showValidationErrors S h v)) =
               tooltips v1 @ [\<lparr>invalidEl = el, message = toMessage S (toError
                 (if getElementValue el = [] then ''EMAIL_REQUIRED'' else ''INVALID_EMAIL''))\<rparr>]
           \<and> visibleTooltips (snd (showValidationErrors S h v)) =
               [\<lparr>invalidEl = el, message = toMessage S (toError
                 (if getElementValue el = [] then ''EMAIL_REQUIRED'' else ''INVALID_EMAIL''))\<rparr>])
         \<and> (kindOf el = PasswordKind \<longrightarrow>
           showValidationErrors S h v =
             (JStr (toMessage S (toError
                (if getElementValue el = [] then ''PASSWORD_REQUIRED'' else ''PASSWORD_TOO_SHORT''))),
              snd (showPasswordValidationError S el v1))
           \<and> tooltips (snd (showValidationErrors S h v)) =
               tooltips v1 @ [\<lparr>invalidEl = el, message = toMessage S (toError
                 (if getElementValue el = [] then ''PASSWORD_REQUIRED''
                  else ''PASSWORD_TOO_SHORT''))\<rparr>]
           \<and> visibleTooltips (snd (showValidationErrors S h v)) =
               [\<lparr>invalidEl = el, message = toMessage S (toError
                 (if getElementValue el = [] then ''PASSWORD_REQUIRED''
                  else ''PASSWORD_TOO_SHORT''))\<rparr>])
         \<and> (kindOf el = GenericKind \<longrightarrow>
           showValidationErrors S h v = (JUndefined, v1))
         \<and> length (tooltips (snd (showValidationErrors S h v))) \<le> length (tooltips v1) + 1
         \<and> (atMostOneTooltip v1 \<longrightarrow> atMostOneTooltip (snd (showValidationErrors S h v)))
         \<and> (hooksKeepOneTooltip h \<and> atMostOneTooltip w \<longrightarrow>
              atMostOneTooltip (fold (perform S h) ops w))"
proof -
  note walk = showValidationErrors_at_first_invalid [OF start els pre el]
  have email: "kindOf el = EmailKind \<longrightarrow>
           showValidationErrors S h v =
             (JStr (toMessage S (toError
                (if getElementValue el = [] then ''EMAIL_REQUIRED'' else ''INVALID_EMAIL''))),
              snd (showEmailValidationError S el v1))
           \<and> tooltips (snd (showValidationErrors S h v)) =
               tooltips v1 @ [\<lparr>invalidEl = el, message = toMessage S (toError
                 (if getElementValue el = [] then ''EMAIL_REQUIRED'' else ''INVALID_EMAIL''))\<rparr>]
           \<and> visibleTooltips (snd (showValidationErrors S h v)) =
               [\<lparr>invalidEl = el, message = toMessage S (toError
                 (if getElementValue el = [] then ''EMAIL_REQUIRED'' else ''INVALID_EMAIL''))\<rparr>]"
    using walk by (simp add: showEmailValidationError_eq showValidationError_eq)
  have password: "kindOf el = PasswordKind \<longrightarrow>
           showValidationErrors S h v =
             (JStr (toMessage S (toError
                (if getElementValue el = [] then ''PASSWORD_REQUIRED'' else ''PASSWORD_TOO_SHORT''))),
              snd (showPasswordValidationError S el v1))
           \<and> tooltips (snd (showValidationErrors S h v)) =
               tooltips v1 @ [\<lparr>invalidEl = el, message = toMessage S (toError
                 (if getElementValue el = [] then ''PASSWORD_REQUIRED''
                  else ''PASSWORD_TOO_SHORT''))\<rparr>]
           \<and> visibleTooltips (snd (showValidationErrors S h v)) =
               [\<lparr>invalidEl = el, message = toMessage S (toError
                 (if getElementValue el = [] then ''PASSWORD_REQUIRED''
                  else ''PASSWORD_TOO_SHORT''))\<rparr>]"
    using walk by (simp add: showPasswordValidationError_eq showValidationError_eq)
  have generic: "kindOf el = GenericKind \<longrightarrow> showValidationErrors S h v = (JUndefined, v1)"
    using walk by simp
  have created: "length (tooltips (snd (showValidationErrors S h v))) \<le> length (tooltips v1) + 1"
    using walk
    by (cases "kindOf el")
      (simp_all add: showEmailValidationError_eq showPasswordValidationError_eq
        showValidationError_eq)
  have visible: "atMostOneTooltip v1 \<longrightarrow> atMostOneTooltip (snd (showValidationErrors S h v))"
    using walk
    by (cases "kindOf el")
      (simp_all add: showEmailValidationError_eq showPasswordValidationError_eq
        showValidationError_eq atMostOneTooltip_def)
  have always: "hooksKeepOneTooltip h \<and> atMostOneTooltip w \<longrightarrow>
      atMostOneTooltip (fold (perform S h) ops w)"
    by (simp add: atMostOneTooltip_run)
  show ?thesis
    using email password generic created visible always by blast
qed

text \<open>
  An invalid email behind a valid text field, an invalid password before an empty
  required field, Scenario A, and a run of operations that displays twice.
\<close>
theorem showValidationErrors_first_invalid_witness:
  "showValidationErrors sampleServices defaultHooks
       (freshView [textField ''name'' ''x'', emailField ''not-an-email'', passwordField ''abc'']) =
     (JStr ''INVALID_EMAIL'',
      (freshView [textField ''name'' ''x'', emailField ''not-an-email'', passwordField ''abc''])
        \<lparr>tooltips := [\<lparr>invalidEl = emailField ''not-an-email'', message = ''INVALID_EMAIL''\<rparr>],
          visibleTooltips :=
            [\<lparr>invalidEl = emailField ''not-an-email'', message = ''INVALID_EMAIL''\<rparr>],
          events := [ErrorLogged (AuthError ''INVALID_EMAIL''),
                     ValidationErrorShown (emailField ''not-an-email'') ''INVALID_EMAIL'']\<rparr>)
   \<and> visibleTooltips (snd (showValidationErrors sampleServices defaultHooks
       (freshView [emailField ''a@b.com'', passwordField ''abc'', requiredField ''name'' []]))) =
     [\<lparr>invalidEl = passwordField ''abc'', message = ''PASSWORD_TOO_SHORT''\<rparr>]
   \<and> showValidationErrors sampleServices defaultHooks scenarioA = (JUndefined, scenarioA)
   \<and> atMostOneTooltip (fold (perform sampleServices defaultHooks)
        [OpShowValidationErrors, OpValidateAndSubmit, OpShowValidationErrors,
         OpEnableSubmitIfValid, OpShowEmailValidationError (emailField ''not-an-email'')]
        (freshView [textField ''name'' ''x'', emailField ''not-an-email'', passwordField ''abc'']))"
proof -
  let ?S = sampleServices
  let ?fa = "freshView [textField ''name'' ''x'', emailField ''not-an-email'', passwordField ''abc'']"
  let ?fb = "freshView [emailField ''a@b.com'', passwordField ''abc'', requiredField ''name'' []]"
  have hide: "hideError ?fa = ?fa" "hideError ?fb = ?fb" "hideError scenarioA = scenarioA"
    by (simp_all add: hideError_def freshView_def scenarioA_def)
  have start: "\<And>w. showValidationErrorsStart defaultHooks w = (False, w)"
    by (simp add: defaultHooks_def)
  have els: "inputEls ?fa = [textField ''name'' ''x''] @ emailField ''not-an-email'' # [passwordField ''abc'']"
    "inputEls ?fb = [emailField ''a@b.com''] @ passwordField ''abc'' # [requiredField ''name'' []]"
    "inputEls scenarioA = [] @ requiredField ''name'' [] # [emailField ''a@b.com'']"
    by (simp_all add: sample_defs inputEls_def)
  have valid: "list_all (isElementValid ?S) [textField ''name'' ''x'']"
    "list_all (isElementValid ?S) [emailField ''a@b.com'']"
    "list_all (isElementValid ?S) []"
    "\<not> isElementValid ?S (emailField ''not-an-email'')" "\<not> isElementValid ?S (passwordField ''abc'')"
    "\<not> isElementValid ?S (requiredField ''name'' [])"
    by (simp_all add: isElementValid_rule sample_defs element_defs)
  have kinds: "kindOf (emailField ''not-an-email'') = EmailKind"
    "kindOf (passwordField ''abc'') = PasswordKind" "kindOf (requiredField ''name'' []) = GenericKind"
    by (simp_all add: sample_defs element_defs)
  have vals: "getElementValue (passwordField ''abc'') = ''abc''"
    by (simp add: sample_defs element_defs)
  have fresh: "\<And>els. tooltips (freshView els) = []" "\<And>els. events (freshView els) = []"
    "\<And>els. atMostOneTooltip (freshView els)"
    by (simp_all add: freshView_def atMostOneTooltip_def)
  have "showValidationErrorsStart defaultHooks (hideError ?fa) = (False, ?fa)"
    by (simp only: hide start)
  from showValidationErrors_first_invalid [OF this els(1) valid(1) valid(4), THEN conjunct1]
  have a: "showValidationErrors ?S defaultHooks ?fa =
     (JStr ''INVALID_EMAIL'',
      ?fa\<lparr>tooltips := [\<lparr>invalidEl = emailField ''not-an-email'', message = ''INVALID_EMAIL''\<rparr>],
          visibleTooltips :=
            [\<lparr>invalidEl = emailField ''not-an-email'', message = ''INVALID_EMAIL''\<rparr>],
          events := [ErrorLogged (AuthError ''INVALID_EMAIL''),
                     ValidationErrorShown (emailField ''not-an-email'') ''INVALID_EMAIL'']\<rparr>)"
    by (simp add: kinds fresh showEmailValidationError_eq showValidationError_eq)
      (simp add: toError_def)
  have "showValidationErrorsStart defaultHooks (hideError ?fb) = (False, ?fb)"
    by (simp only: hide start)
  from showValidationErrors_first_invalid [OF this els(2) valid(2) valid(5),
      THEN conjunct2, THEN conjunct1]
  have b: "visibleTooltips (snd (showValidationErrors ?S defaultHooks ?fb)) =
     [\<lparr>invalidEl = passwordField ''abc'', message = ''PASSWORD_TOO_SHORT''\<rparr>]"
    by (simp add: kinds vals fresh showPasswordValidationError_eq showValidationError_eq)
  have startA: "showValidationErrorsStart defaultHooks (hideError scenarioA) = (False, scenarioA)"
    by (simp only: hide start)
  from showValidationErrors_first_invalid [OF startA els(3) valid(3) valid(6),
      THEN conjunct2, THEN conjunct2, THEN conjunct1]
  have c: "showValidationErrors ?S defaultHooks scenarioA = (JUndefined, scenarioA)"
    by (simp add: kinds)
  from showValidationErrors_first_invalid [OF startA els(3) valid(3) valid(6), where w = ?fa
      and ops = "[OpShowValidationErrors, OpValidateAndSubmit, OpShowValidationErrors,
         OpEnableSubmitIfValid, OpShowEmailValidationError (emailField ''not-an-email'')]",
      THEN conjunct2, THEN conjunct2, THEN conjunct2, THEN conjunct2, THEN conjunct2]
  have d: "atMostOneTooltip (fold (perform ?S defaultHooks)
        [OpShowValidationErrors, OpValidateAndSubmit, OpShowValidationErrors,
         OpEnableSubmitIfValid, OpShowEmailValidationError (emailField ''not-an-email'')] ?fa)"
    using hooksKeepOneTooltip_default fresh(3) by blast
  show ?thesis using a b c d by blast
qed

text \<open>
  The claim as stated fails on Scenario A: the first invalid field is the empty
  required text field, and neither it nor any other field gets a tooltip. It also
  fails when a descendant view's \<^verbatim>\<open>showValidationErrorsStart\<close> returns a truthy
  value: an invalid email field then gets no tooltip either.
\<close>
theorem showValidationErrors_generic_field_counterexample:
  "inputEls scenarioA = [requiredField ''name'' [], emailField ''a@b.com'']
   \<and> \<not> isElementValid sampleServices (requiredField ''name'' [])
   \<and> kindOf (requiredField ''name'' []) = GenericKind
   \<and> tooltips scenarioA = []
   \<and> fst (showValidationErrors sampleServices defaultHooks scenarioA) = JUndefined
   \<and> tooltips (snd (showValidationErrors sampleServices defaultHooks scenarioA)) = []
   \<and> visibleTooltips (snd (showValidationErrors sampleServices defaultHooks scenarioA)) = []
   \<and> events (snd (showValidationErrors sampleServices defaultHooks scenarioA)) = []
   \<and> \<not> isElementValid sampleServices (emailField ''not-an-email'')
   \<and> showValidationErrors sampleServices
        (defaultHooks\<lparr>showValidationErrorsStart := (\<lambda>v. (True, v))\<rparr>)
        (freshView [emailField ''not-an-email'']) =
       (JUndefined, freshView [emailField ''not-an-email''])"
proof -
  have a: "inputEls scenarioA = [requiredField ''name'' [], emailField ''a@b.com'']
   \<and> \<not> isElementValid sampleServices (requiredField ''name'' [])
   \<and> kindOf (requiredField ''name'' []) = GenericKind
   \<and> tooltips scenarioA = []
   \<and> fst (showValidationErrors sampleServices defaultHooks scenarioA) = JUndefined
   \<and> tooltips (snd (showValidationErrors sampleServices defaultHooks scenarioA)) = []
   \<and> visibleTooltips (snd (showValidationErrors sampleServices defaultHooks scenarioA)) = []
   \<and> events (snd (showValidationErrors sampleServices defaultHooks scenarioA)) = []"
    by (simp add: showValidationErrors_def defaultHooks_def hideError_def isElementValid_rule
        sample_defs element_defs)
  have b: "\<not> isElementValid sampleServices (emailField ''not-an-email'')"
    by (simp add: isElementValid_rule)
  have c: "showValidationErrors sampleServices
        (defaultHooks\<lparr>showValidationErrorsStart := (\<lambda>v. (True, v))\<rparr>)
        (freshView [emailField ''not-an-email'']) =
       (JUndefined, freshView [emailField ''not-an-email''])"
    by (simp add: showValidationErrors_def)
  show ?thesis using a b c by blast
qed

section \<open>Validity of a form\<close>

text \<open>
  Claim C3. \<^verbatim>\<open>isValid\<close> returns false if and only if \<^verbatim>\<open>isValidStart\<close> fails, or some
  input outside \<^verbatim>\<open>#coppa\<close> fails the rule of its kind, or \<^verbatim>\<open>isValidEnd\<close> fails. The
  rule the code applies is the rule of the specification. Only inputs outside
  \<^verbatim>\<open>#coppa\<close> are looked at, so two forms with the same such inputs and the same
  hook verdicts have the same validity. With hooks that leave the view as it is,
  as the default hooks do, \<^verbatim>\<open>isValid\<close> leaves the view as it is: nothing is
  displayed and nothing is changed.
\<close>
theorem isValid_characterisation:
  "(fst (isValid S h v) = False) =
     (\<not> fst (isValidStart h v)
      \<or> (\<exists>el \<in> set (inputEls (snd (isValidStart h v))). \<not> passesKindRule S el)
      \<or> \<not> fst (isValidEnd h (snd (isValidStart h v))))
   \<and> isElementValid S el = passesKindRule S el
   \<and> set (inputEls v) = {el \<in> set (elements v). tagName el = InputTag \<and> \<not> inCoppa el}
   \<and> (isValidStart h v = (s, v) \<and> isValidEnd h v = (e, v) \<longrightarrow> snd (isValid S h v) = v)
   \<and> (isValidStart h v = (s, v) \<and> isValidEnd h v = (e, v) \<and>
       isValidStart h v' = (s, v') \<and> isValidEnd h v' = (e, v') \<and> inputEls v' = inputEls v \<longrightarrow>
       fst (isValid S h v') = fst (isValid S h v))
   \<and> isValid S defaultHooks v = (list_all (passesKindRule S) (inputEls v), v)"
proof -
  have rule: "isElementValid S = passesKindRule S"
    by (simp add: fun_eq_iff isElementValid_rule)
  have a: "(fst (isValid S h v) = False) =
     (\<not> fst (isValidStart h v)
      \<or> (\<exists>el \<in> set (inputEls (snd (isValidStart h v))). \<not> passesKindRule S el)
      \<or> \<not> fst (isValidEnd h (snd (isValidStart h v))))"
    by (auto simp: isValid_fst allElementsValid_iff rule list_all_iff)
  have b: "isValidStart h v = (s, v) \<and> isValidEnd h v = (e, v) \<longrightarrow> snd (isValid S h v) = v"
    by (simp add: isValid_pure)
  have c: "isValidStart h v = (s, v) \<and> isValidEnd h v = (e, v) \<and>
       isValidStart h v' = (s, v') \<and> isValidEnd h v' = (e, v') \<and> inputEls v' = inputEls v \<longrightarrow>
       fst (isValid S h v') = fst (isValid S h v)"
    by (simp add: isValid_fst)
  have d: "isValid S defaultHooks v = (list_all (passesKindRule S) (inputEls v), v)"
    by (simp add: isValid_def defaultHooks_def allElementsValid_iff rule)
  show ?thesis using a b c d rule inputEls_set by simp
qed

text \<open>
  Scenario A is invalid by its empty required field; the email alone is valid;
  an empty required field inside \<^verbatim>\<open>#coppa\<close> changes nothing.
\<close>
theorem isValid_characterisation_witness:
  "isValid sampleServices defaultHooks scenarioA = (False, scenarioA)
   \<and> \<not> passesKindRule sampleServices (requiredField ''name'' [])
   \<and> passesKindRule sampleServices (emailField ''a@b.com'')
   \<and> isValid sampleServices defaultHooks (freshView [emailField ''a@b.com'']) =
       (True, freshView [emailField ''a@b.com''])
   \<and> \<not> passesKindRule sampleServices (coppaField [])
   \<and> fst (isValid sampleServices defaultHooks (freshView [coppaField [], emailField ''a@b.com'']))
     = fst (isValid sampleServices defaultHooks (freshView [emailField ''a@b.com'']))"
  using isValid_characterisation [where S = sampleServices and h = defaultHooks and v = scenarioA
      and s = True and e = True]
    isValid_characterisation [where S = sampleServices and h = defaultHooks
      and v = "freshView [emailField ''a@b.com'']" and s = True and e = True
      and v' = "freshView [coppaField [], emailField ''a@b.com'']"]
  by (simp add: sample_defs element_defs defaultHooks_def)

section \<open>The error of an email and of a password field\<close>

text \<open>
  Claim C4, as amended. An email field that is reported gets the error
  \<^verbatim>\<open>INVALID_EMAIL\<close> when its value, trimmed of surrounding whitespace as
  \<^verbatim>\<open>getElementValue\<close> reads it, is non-empty, and \<^verbatim>\<open>EMAIL_REQUIRED\<close> when its value is
  empty or whitespace only. A password field that is reported gets
  \<^verbatim>\<open>PASSWORD_TOO_SHORT\<close> when its value is non-empty and \<^verbatim>\<open>PASSWORD_REQUIRED\<close> when it
  is empty; a password is read as it is. The error chosen is the one displayed: its
  message is returned, put in the tooltip of the field and carried by the signal.
\<close>
theorem showValidationError_kinds:
  "(kindOf el = EmailKind \<longrightarrow>
      getElementValue el = trim (val el) \<and>
      showEmailValidationError S el v =
        showValidationError S el
          (toError (if list_all isSpace (val el) then ''EMAIL_REQUIRED'' else ''INVALID_EMAIL'')) v)
   \<and> (kindOf el = PasswordKind \<longrightarrow>
      getElementValue el = val el \<and>
      showPasswordValidationError S el v =
        showValidationError S el
          (toError (if val el = [] then ''PASSWORD_REQUIRED'' else ''PASSWORD_TOO_SHORT'')) v)
   \<and> (trim x = []) = list_all isSpace x
   \<and> showEmailValidationError S el v =
     showValidationError S el
       (toError (if getElementValue el = [] then ''EMAIL_REQUIRED'' else ''INVALID_EMAIL'')) v
   \<and> showPasswordValidationError S el v =
     showValidationError S el
       (toError (if getElementValue el = [] then ''PASSWORD_REQUIRED'' else ''PASSWORD_TOO_SHORT'')) v
   \<and> showValidationError S el err v =
     (toMessage S err,
      v\<lparr>tooltips := tooltips v @ [\<lparr>invalidEl = el, message = toMessage S err\<rparr>],
        visibleTooltips := [\<lparr>invalidEl = el, message = toMessage S err\<rparr>],
        events := events v @ [ErrorLogged err, ValidationErrorShown el (toMessage S err)]\<rparr>)"
proof -
  have email: "kindOf el = EmailKind \<longrightarrow>
      getElementValue el = trim (val el) \<and>
      showEmailValidationError S el v =
        showValidationError S el
          (toError (if list_all isSpace (val el) then ''EMAIL_REQUIRED'' else ''INVALID_EMAIL'')) v"
    by (simp add: getElementValue_email showEmailValidationError_eq trim_empty_iff)
  have password: "kindOf el = PasswordKind \<longrightarrow>
      getElementValue el = val el \<and>
      showPasswordValidationError S el v =
        showValidationError S el
          (toError (if val el = [] then ''PASSWORD_REQUIRED'' else ''PASSWORD_TOO_SHORT'')) v"
    by (simp add: getElementValue_password showPasswordValidationError_eq)
  show ?thesis
    using email password trim_empty_iff [of x] showEmailValidationError_eq [of S el v]
      showPasswordValidationError_eq [of S el v] showValidationError_eq [of S el err v]
    by blast
qed

text \<open>
  Scenarios B and C of the specification, and two email fields with blanks:
  \<^verbatim>\<open>"not-an-email"\<close> and the empty email, a blank email and an address between
  blanks, a password of length 3 and the empty password.
\<close>
theorem showValidationError_kinds_scenarios:
  "fst (showEmailValidationError sampleServices (emailField ''not-an-email'') (freshView [])) = ''INVALID_EMAIL''
   \<and> fst (showEmailValidationError sampleServices (emailField []) (freshView [])) = ''EMAIL_REQUIRED''
   \<and> fst (showEmailValidationError sampleServices (emailField ''  '') (freshView [])) = ''EMAIL_REQUIRED''
   \<and> fst (showEmailValidationError sampleServices (emailField '' a b '') (freshView [])) = ''INVALID_EMAIL''
   \<and> getElementValue (emailField '' a b '') = ''a b''
   \<and> fst (showPasswordValidationError sampleServices (passwordField ''abc'') (freshView [])) = ''PASSWORD_TOO_SHORT''
   \<and> fst (showPasswordValidationError sampleServices (passwordField []) (freshView [])) = ''PASSWORD_REQUIRED''"
proof -
  let ?S = sampleServices
  have raw: "\<And>x. val (emailField x) = x" "\<And>x. val (passwordField x) = x"
    by (simp_all add: emailField_def passwordField_def textField_def)
  have shown: "\<And>el kind v. fst (showValidationError ?S el (toError kind) v) = kind"
    by (simp add: showValidationError_eq)
  have a: "fst (showEmailValidationError ?S (emailField ''not-an-email'') (freshView [])) = ''INVALID_EMAIL''"
    using showValidationError_kinds [where S = ?S and el = "emailField ''not-an-email''"
        and v = "freshView []", THEN conjunct1]
    by (simp add: raw shown isSpace_def)
  have b: "fst (showEmailValidationError ?S (emailField []) (freshView [])) = ''EMAIL_REQUIRED''"
    using showValidationError_kinds [where S = ?S and el = "emailField []" and v = "freshView []",
        THEN conjunct1]
    by (simp add: raw shown)
  have c: "fst (showEmailValidationError ?S (emailField ''  '') (freshView [])) = ''EMAIL_REQUIRED''"
    using showValidationError_kinds [where S = ?S and el = "emailField ''  ''" and v = "freshView []",
        THEN conjunct1]
    by (simp add: raw shown isSpace_def)
  have d: "fst (showEmailValidationError ?S (emailField '' a b '') (freshView [])) = ''INVALID_EMAIL''
      \<and> getElementValue (emailField '' a b '') = ''a b''"
    using showValidationError_kinds [where S = ?S and el = "emailField '' a b ''" and v = "freshView []",
        THEN conjunct1]
    by (simp add: raw shown isSpace_def trim_def)
  have e: "fst (showPasswordValidationError ?S (passwordField ''abc'') (freshView [])) = ''PASSWORD_TOO_SHORT''"
    using showValidationError_kinds [where S = ?S and el = "passwordField ''abc''" and v = "freshView []",
        THEN conjunct2, THEN conjunct1]
    by (simp add: raw shown)
  have f: "fst (showPasswordValidationError ?S (passwordField []) (freshView [])) = ''PASSWORD_REQUIRED''"
    using showValidationError_kinds [where S = ?S and el = "passwordField []" and v = "freshView []",
        THEN conjunct2, THEN conjunct1]
    by (simp add: raw shown)
  show ?thesis using a b c d e f by blast
qed

text \<open>
  The claim as stated fails on an email field holding two blanks: the field is
  invalid and its value is not empty, and the error displayed is
  \<^verbatim>\<open>EMAIL_REQUIRED\<close>, not \<^verbatim>\<open>INVALID_EMAIL\<close>.
\<close>
theorem showValidationError_blank_email_counterexample:
  "kindOf (emailField ''  '') = EmailKind
   \<and> val (emailField ''  '') = ''  ''
   \<and> val (emailField ''  '') \<noteq> []
   \<and> \<not> isElementValid sampleServices (emailField ''  '')
   \<and> showEmailValidationError sampleServices (emailField ''  '') (freshView []) =
       showValidationError sampleServices (emailField ''  '') (toError ''EMAIL_REQUIRED'') (freshView [])
   \<and> fst (showValidationErrors sampleServices defaultHooks (freshView [emailField ''  ''])) =
       JStr ''EMAIL_REQUIRED''
   \<and> visibleTooltips (snd (showValidationErrors sampleServices defaultHooks
         (freshView [emailField ''  '']))) =
       [\<lparr>invalidEl = emailField ''  '', message = ''EMAIL_REQUIRED''\<rparr>]"
proof -
  let ?S = sampleServices
  let ?el = "emailField ''  ''"
  have kind: "kindOf ?el = EmailKind" by simp
  have raw: "val ?el = ''  ''" by (simp add: emailField_def textField_def)
  have blank: "trim ''  '' = []" by (simp add: trim_def isSpace_def)
  have read: "getElementValue ?el = []"
    using getElementValue_email [OF kind] by (simp add: raw blank)
  have invalid: "\<not> isElementValid ?S ?el"
    by (simp add: isElementValid_rule passesKindRule_def read)
  have shown: "showEmailValidationError ?S ?el (freshView []) =
      showValidationError ?S ?el (toError ''EMAIL_REQUIRED'') (freshView [])"
    by (simp add: showEmailValidationError_eq read)
  have walk: "showValidationErrors ?S defaultHooks (freshView [?el]) =
      (JStr ''EMAIL_REQUIRED'', snd (showEmailValidationError ?S ?el (freshView [?el])))"
    using showValidationErrors_at_first_invalid [where S = ?S and h = defaultHooks
        and v = "freshView [?el]" and ?v1.0 = "freshView [?el]" and pre = "[]" and el = ?el
        and post = "[]"] invalid
    by (simp add: read)
  have visible: "visibleTooltips (snd (showEmailValidationError ?S ?el (freshView [?el]))) =
      [\<lparr>invalidEl = ?el, message = ''EMAIL_REQUIRED''\<rparr>]"
    by (simp add: showEmailValidationError_eq showValidationError_eq read)
  show ?thesis
    using kind raw invalid shown walk visible by simp
qed

section \<open>The submission chain\<close>

text \<open>
  Claim C5. In the submission chain, when \<^verbatim>\<open>beforeSubmit\<close> returns or resolves to
  \<^verbatim>\<open>false\<close>, \<^verbatim>\<open>submit\<close> is skipped (the outcome is the same whatever the submit hook
  is) and \<^verbatim>\<open>afterSubmit\<close> still runs, on \<^verbatim>\<open>undefined\<close>. When \<^verbatim>\<open>beforeSubmit\<close> or
  \<^verbatim>\<open>submit\<close> throws or rejects, the error is displayed with \<^verbatim>\<open>displayError\<close>, the
  chain rejects with that same error, and \<^verbatim>\<open>afterSubmit\<close> is not invoked (the
  outcome is the same whatever the afterSubmit hook is). Otherwise \<^verbatim>\<open>afterSubmit\<close>
  runs on the result of \<^verbatim>\<open>submit\<close>.
\<close>
theorem submitForm_chain:
  "(beforeSubmit h v = (Resolved (JBool False), v1) \<longrightarrow>
      submitForm h v = afterSubmit h JUndefined v1 \<and>
      (\<forall>s. submitForm (h\<lparr>submit := s\<rparr>) v = submitForm h v))
   \<and> (beforeSubmit h v = (Rejected err, v1) \<longrightarrow>
      submitForm h v = (Rejected err, displayError err v1) \<and>
      (\<forall>s a. submitForm (h\<lparr>submit := s, afterSubmit := a\<rparr>) v = submitForm h v))
   \<and> (beforeSubmit h v = (Resolved shouldSubmit, v1) \<and> shouldSubmit \<noteq> JBool False \<and>
      submit h v1 = (Rejected err, v2) \<longrightarrow>
      submitForm h v = (Rejected err, displayError err v2) \<and>
      (\<forall>a. submitForm (h\<lparr>afterSubmit := a\<rparr>) v = submitForm h v))
   \<and> (beforeSubmit h v = (Resolved shouldSubmit, v1) \<and> shouldSubmit \<noteq> JBool False \<and>
      submit h v1 = (Resolved result, v2) \<longrightarrow>
      submitForm h v = afterSubmit h result v2)"
  by (simp add: submitForm_def)

text \<open>
  The chain on a fresh view, with a \<^verbatim>\<open>beforeSubmit\<close> that returns \<^verbatim>\<open>false\<close>, one that
  rejects, a \<^verbatim>\<open>submit\<close> that rejects and a \<^verbatim>\<open>submit\<close> that asks for a halt.
\<close>
theorem submitForm_chain_witness:
  "submitForm abortingHooks (freshView []) = (Resolved JUndefined, freshView [])
   \<and> submitForm refusingHooks (freshView []) =
       (Rejected (JStr ''denied''), (freshView [])\<lparr>visibleError := Some (JStr ''denied'')\<rparr>)
   \<and> submitForm failingHooks (freshView []) =
       (Rejected (JStr ''offline''),
        (freshView [])\<lparr>isFormEnabled_flag := False, visibleError := Some (JStr ''offline'')\<rparr>)
   \<and> submitForm haltingHooks (freshView []) =
       (Resolved (JObj [(''halt'', JBool True)]),
        (freshView [])\<lparr>isFormEnabled_flag := False, isHalted_flag := True\<rparr>)"
  using submitForm_chain [where h = abortingHooks and v = "freshView []" and ?v1.0 = "freshView []"]
    submitForm_chain [where h = refusingHooks and v = "freshView []" and ?v1.0 = "freshView []"
      and err = "JStr ''denied''"]
    submitForm_chain [where h = failingHooks and v = "freshView []"
      and ?v1.0 = "disableForm (freshView [])" and ?v2.0 = "disableForm (freshView [])"
      and err = "JStr ''offline''" and shouldSubmit = JUndefined]
    submitForm_chain [where h = haltingHooks and v = "freshView []"
      and ?v1.0 = "disableForm (freshView [])" and ?v2.0 = "disableForm (freshView [])"
      and result = "JObj [(''halt'', JBool True)]" and shouldSubmit = JUndefined]
  by (simp add: abortingHooks_def refusingHooks_def failingHooks_def haltingHooks_def
      defaultHooks_def beforeSubmit_default_def submit_default_def afterSubmit_default_def
      freshView_def disableForm_def enableForm_def halt_def displayError_def isErrorVisible_def)

section \<open>Halting\<close>

text \<open>
  Claim C6. When \<^verbatim>\<open>submit\<close> resolves with a result whose \<^verbatim>\<open>halt\<close> is truthy, the
  default \<^verbatim>\<open>afterSubmit\<close> halts the view, and so \<^verbatim>\<open>validateAndSubmit\<close> on a valid,
  enabled form ends halted. Once the view is halted, \<^verbatim>\<open>validateAndSubmit\<close> resolves
  with \<^verbatim>\<open>undefined\<close> without validating, displaying or submitting: at most the
  \<^verbatim>\<open>submitStart\<close> signal is added. No sequence of operations of the form view
  clears the halted state, as long as the hooks of the descendant view do not.
\<close>
theorem halted_is_terminal:
  "(truthy result \<and> truthy (getProp result ''halt'') \<longrightarrow>
      afterSubmit_default result v = (Resolved result, halt v) \<and> isHalted (halt v))
   \<and> (\<not> isSubmitting v \<and> \<not> isHalted v \<and> afterSubmit h = afterSubmit_default \<and>
      isValid S h (trigger ''submitStart'' (v\<lparr>isSubmitting_flag := True\<rparr>)) = (True, v1) \<and>
      isFormEnabled v1 \<and>
      beforeSubmit h (logViewEvent ''submit'' v1) = (Resolved shouldSubmit, v2) \<and>
      shouldSubmit \<noteq> JBool False \<and>
      submit h v2 = (Resolved result, v3) \<and>
      truthy result \<and> truthy (getProp result ''halt'') \<longrightarrow>
        validateAndSubmit S h v = (Resolved result, (halt v3)\<lparr>isSubmitting_flag := False\<rparr>) \<and>
        isHalted (snd (validateAndSubmit S h v)))
   \<and> (isHalted v \<longrightarrow>
        validateAndSubmit S h v =
          (Resolved JUndefined, if isSubmitting v then v else trigger ''submitStart'' v))
   \<and> (hooksKeepHalted h \<and> isHalted v \<longrightarrow> isHalted (fold (perform S h) ops v))"
proof -
  have a: "truthy result \<and> truthy (getProp result ''halt'') \<longrightarrow>
      afterSubmit_default result v = (Resolved result, halt v) \<and> isHalted (halt v)"
    by (simp add: afterSubmit_default_halts)
  have b: "\<not> isSubmitting v \<and> \<not> isHalted v \<and> afterSubmit h = afterSubmit_default \<and>
      isValid S h (trigger ''submitStart'' (v\<lparr>isSubmitting_flag := True\<rparr>)) = (True, v1) \<and>
      isFormEnabled v1 \<and>
      beforeSubmit h (logViewEvent ''submit'' v1) = (Resolved shouldSubmit, v2) \<and>
      shouldSubmit \<noteq> JBool False \<and>
      submit h v2 = (Resolved result, v3) \<and>
      truthy result \<and> truthy (getProp result ''halt'') \<longrightarrow>
        validateAndSubmit S h v = (Resolved result, (halt v3)\<lparr>isSubmitting_flag := False\<rparr>) \<and>
        isHalted (snd (validateAndSubmit S h v))"
    by (simp add: validateAndSubmit_idle validateAndSubmit_handler_def submitForm_def
        afterSubmit_default_halts Let_def)
  have c: "isHalted v \<longrightarrow>
        validateAndSubmit S h v =
          (Resolved JUndefined, if isSubmitting v then v else trigger ''submitStart'' v)"
    by (simp add: validateAndSubmit_in_flight validateAndSubmit_halted)
  have d: "hooksKeepHalted h \<and> isHalted v \<longrightarrow> isHalted (fold (perform S h) ops v)"
    by (simp add: isHalted_run)
  show ?thesis using a b c d by blast
qed

text \<open>
  A valid form whose \<^verbatim>\<open>submit\<close> resolves with \<^verbatim>\<open>{halt: true}\<close> ends halted; a second
  call adds the signal only; a run of every kind of operation leaves it halted.
\<close>
theorem halted_is_terminal_witness:
  "validateAndSubmit sampleServices haltingHooks (freshView [emailField ''a@b.com'']) =
     (Resolved (JObj [(''halt'', JBool True)]),
      (halt (freshView [emailField ''a@b.com'']))
        \<lparr>isFormEnabled_flag := False,
          events := [Triggered ''submitStart'', ViewEventLogged ''submit'']\<rparr>)
   \<and> isHalted (snd (validateAndSubmit sampleServices haltingHooks (freshView [emailField ''a@b.com''])))
   \<and> validateAndSubmit sampleServices haltingHooks (halt (freshView [emailField ''a@b.com''])) =
     (Resolved JUndefined, trigger ''submitStart'' (halt (freshView [emailField ''a@b.com''])))
   \<and> isHalted (fold (perform sampleServices haltingHooks)
        [OpEnableForm, OpEnableSubmitIfValid, OpFormValuesChanged, OpAfterRender False,
         OpValidateAndSubmit, OpSubmitForm, OpAfterSubmit JUndefined, OpShowValidationErrors,
         OpUpdateFormValueChanges]
        (halt (freshView [emailField ''a@b.com''])))"
proof -
  let ?S = sampleServices
  let ?form = "freshView [emailField ''a@b.com'']"
  let ?entered = "trigger ''submitStart'' (?form\<lparr>isSubmitting_flag := True\<rparr>)"
  let ?sent = "disableForm (logViewEvent ''submit'' ?entered)"
  let ?r = "JObj [(''halt'', JBool True)]"
  have valid: "isValid ?S haltingHooks ?entered = (True, ?entered)"
    by (simp add: haltingHooks_def isValid_default)
  have enabled: "isFormEnabled ?entered"
    by (simp add: isFormEnabled_def trigger_def freshView_def)
  have hooks: "afterSubmit haltingHooks = afterSubmit_default"
    "beforeSubmit haltingHooks (logViewEvent ''submit'' ?entered) = (Resolved JUndefined, ?sent)"
    "submit haltingHooks ?sent = (Resolved ?r, ?sent)"
    by (simp_all add: haltingHooks_def defaultHooks_def beforeSubmit_default_def)
  have "validateAndSubmit ?S haltingHooks ?form = (Resolved ?r, (halt ?sent)\<lparr>isSubmitting_flag := False\<rparr>)
      \<and> isHalted (snd (validateAndSubmit ?S haltingHooks ?form))"
    using halted_is_terminal [where S = ?S and h = haltingHooks and v = ?form and ?v1.0 = ?entered
        and ?v2.0 = ?sent and ?v3.0 = ?sent and shouldSubmit = JUndefined and result = ?r]
      valid enabled hooks
    by simp
  moreover have "(halt ?sent)\<lparr>isSubmitting_flag := False\<rparr> =
      (halt ?form)\<lparr>isFormEnabled_flag := False,
          events := [Triggered ''submitStart'', ViewEventLogged ''submit'']\<rparr>"
    by (simp add: halt_def disableForm_def logViewEvent_def trigger_def sample_defs isSubmitButton_def)
  ultimately have a: "validateAndSubmit ?S haltingHooks ?form =
     (Resolved ?r, (halt ?form)\<lparr>isFormEnabled_flag := False,
          events := [Triggered ''submitStart'', ViewEventLogged ''submit'']\<rparr>)
     \<and> isHalted (snd (validateAndSubmit ?S haltingHooks ?form))"
    by (simp add: isHalted_def halt_def)
  have halted: "isHalted (halt ?form)" "\<not> isSubmitting (halt ?form)"
    by (simp_all add: halt_def isSubmitting_def isHalted_def freshView_def)
  have b: "validateAndSubmit ?S haltingHooks (halt ?form) =
     (Resolved JUndefined, trigger ''submitStart'' (halt ?form))"
    using halted_is_terminal [where S = ?S and h = haltingHooks and v = "halt ?form"] halted
    by simp
  have c: "isHalted (fold (perform ?S haltingHooks)
        [OpEnableForm, OpEnableSubmitIfValid, OpFormValuesChanged, OpAfterRender False,
         OpValidateAndSubmit, OpSubmitForm, OpAfterSubmit JUndefined, OpShowValidationErrors,
         OpUpdateFormValueChanges]
        (halt ?form))"
    using halted_is_terminal [where S = ?S and h = haltingHooks and v = "halt ?form"
        and ops = "[OpEnableForm, OpEnableSubmitIfValid, OpFormValuesChanged, OpAfterRender False,
         OpValidateAndSubmit, OpSubmitForm, OpAfterSubmit JUndefined, OpShowValidationErrors,
         OpUpdateFormValueChanges]"] halted(1) hooksKeepHalted_halting
    by blast
  show ?thesis using a b c by blast
qed

section \<open>Single flight\<close>

text \<open>
  Claim C7. Submission is single-flight. A call of \<^verbatim>\<open>validateAndSubmit\<close> made while a
  submission is in flight resolves with \<^verbatim>\<open>undefined\<close> and leaves the view exactly as
  it was: no hook is invoked, no signal is emitted, nothing is queued and no error
  is raised. A call made while none is in flight runs the handler with the flag
  set and clears the flag when the handler has settled.
\<close>
theorem single_flight:
  "(isSubmitting v \<longrightarrow> validateAndSubmit S h v = (Resolved JUndefined, v))
   \<and> (\<not> isSubmitting v \<longrightarrow>
        validateAndSubmit S h v =
          (case validateAndSubmit_handler S h (v\<lparr>isSubmitting_flag := True\<rparr>) of
             (r, v') \<Rightarrow> (r, v'\<lparr>isSubmitting_flag := False\<rparr>)))"
  by (simp add: validateAndSubmit_in_flight validateAndSubmit_idle)

text \<open>
  A submit hook that calls \<^verbatim>\<open>validateAndSubmit\<close> again while the submission is in
  flight: the inner call is dropped, so the signals are those of one submission.
\<close>
theorem single_flight_witness:
  "validateAndSubmit sampleServices (reentrantHooks sampleServices)
       (freshView [emailField ''a@b.com'']) =
     (Resolved JUndefined,
      (freshView [emailField ''a@b.com''])
        \<lparr>events := [Triggered ''submitStart'', ViewEventLogged ''submit'']\<rparr>)
   \<and> validateAndSubmit sampleServices defaultHooks (freshView [emailField ''a@b.com'']) =
     (Resolved JUndefined,
      (freshView [emailField ''a@b.com''])
        \<lparr>events := [Triggered ''submitStart'', ViewEventLogged ''submit'']\<rparr>)"
proof -
  let ?S = sampleServices
  let ?form = "freshView [emailField ''a@b.com'']"
  let ?entered = "trigger ''submitStart'' (?form\<lparr>isSubmitting_flag := True\<rparr>)"
  let ?sent = "disableForm (logViewEvent ''submit'' ?entered)"
  have flying: "isSubmitting ?sent"
    by (simp add: isSubmitting_def disableForm_def logViewEvent_def trigger_def)
  have dropped: "validateAndSubmit ?S defaultHooks ?sent = (Resolved JUndefined, ?sent)"
    using single_flight [where S = ?S and h = defaultHooks and v = ?sent] flying by blast
  have valid: "\<And>h. isValid ?S (defaultHooks\<lparr>submit := h\<rparr>) ?entered = (True, ?entered)"
    "isValid ?S defaultHooks ?entered = (True, ?entered)"
    by (simp_all add: isValid_default)
  have enabled: "isFormEnabled ?entered"
    by (simp add: isFormEnabled_def trigger_def freshView_def)
  have settle: "fst (afterSubmit_default JUndefined ?sent) = Resolved JUndefined"
    "(snd (afterSubmit_default JUndefined ?sent))\<lparr>isSubmitting_flag := False\<rparr> =
      ?form\<lparr>events := [Triggered ''submitStart'', ViewEventLogged ''submit'']\<rparr>"
    by (simp_all add: afterSubmit_default_def isErrorVisible_def disableForm_def enableForm_def
        logViewEvent_def trigger_def sample_defs isSubmitButton_def)
  have handler: "validateAndSubmit_handler ?S (reentrantHooks ?S) (?form\<lparr>isSubmitting_flag := True\<rparr>) =
      afterSubmit_default JUndefined ?sent"
    using dropped valid(1) enabled
    by (simp add: validateAndSubmit_handler_def reentrantHooks_def Let_def submitForm_def
        defaultHooks_def beforeSubmit_default_def)
  have handler': "validateAndSubmit_handler ?S defaultHooks (?form\<lparr>isSubmitting_flag := True\<rparr>) =
      afterSubmit_default JUndefined ?sent"
    using valid(2) enabled
    by (simp add: validateAndSubmit_handler_def Let_def submitForm_def)
      (simp add: defaultHooks_def beforeSubmit_default_def submit_default_def)
  have idle: "\<not> isSubmitting ?form" by simp
  have a: "validateAndSubmit ?S (reentrantHooks ?S) ?form =
     (Resolved JUndefined, ?form\<lparr>events := [Triggered ''submitStart'', ViewEventLogged ''submit'']\<rparr>)"
    using single_flight [where S = ?S and h = "reentrantHooks ?S" and v = ?form, THEN conjunct2]
      idle handler settle
    by (simp split: prod.splits)
  have b: "validateAndSubmit ?S defaultHooks ?form =
     (Resolved JUndefined, ?form\<lparr>events := [Triggered ''submitStart'', ViewEventLogged ''submit'']\<rparr>)"
    using single_flight [where S = ?S and h = defaultHooks and v = ?form, THEN conjunct2]
      idle handler' settle
    by (simp split: prod.splits)
  show ?thesis using a b by blast
qed

section \<open>Change tracking\<close>

text \<open>
  Claim C8. Committing the current snapshot with \<^verbatim>\<open>updateFormValueChanges\<close> and then
  running \<^verbatim>\<open>detectFormValueChanges\<close> on unchanged inputs returns \<^verbatim>\<open>null\<close>. Detection
  returns the new snapshot exactly when \<^verbatim>\<open>_.isEqual\<close> finds it different from the
  baseline: always while there is no baseline, and otherwise exactly when the
  two objects differ as mappings from keys to values.
\<close>
theorem change_tracking_round_trip:
  "detectFormValueChanges (snd (updateFormValueChanges v)) = None
   \<and> detectFormValueChanges v =
       (if isEqual (previousFormValues v) (Some (getFormValues v)) then None
        else Some (getFormValues v))
   \<and> (previousFormValues v = None \<longrightarrow> detectFormValueChanges v = Some (getFormValues v))
   \<and> (previousFormValues v = Some old \<and> distinct (map fst old) \<longrightarrow>
        (detectFormValueChanges v = None) = (map_of old = map_of (getFormValues v)))
   \<and> (case previousFormValues (snd (updateFormValueChanges v)) of
        None \<Rightarrow> False
      | Some baseline \<Rightarrow> isEqualObject baseline (getFormValues v))"
proof -
  have refl: "isEqualObject (getFormValues v) (getFormValues v)"
    by (simp add: isEqualObject_refl distinct_getFormValues)
  have a: "detectFormValueChanges (snd (updateFormValueChanges v)) = None"
    using refl by (cases "previousFormValues v")
      (simp_all add: updateFormValueChanges_def detectFormValueChanges_def getFormValues_def Let_def)
  have b: "detectFormValueChanges v =
       (if isEqual (previousFormValues v) (Some (getFormValues v)) then None
        else Some (getFormValues v))"
    by (simp add: detectFormValueChanges_def Let_def)
  have c: "previousFormValues v = None \<longrightarrow> detectFormValueChanges v = Some (getFormValues v)"
    by (simp add: detectFormValueChanges_def Let_def)
  have d: "previousFormValues v = Some old \<and> distinct (map fst old) \<longrightarrow>
        (detectFormValueChanges v = None) = (map_of old = map_of (getFormValues v))"
    by (simp add: detectFormValueChanges_def Let_def isEqualObject_map_of distinct_getFormValues)
  have e: "(case previousFormValues (snd (updateFormValueChanges v)) of
        None \<Rightarrow> False
      | Some baseline \<Rightarrow> isEqualObject baseline (getFormValues v))"
    using refl by (cases "previousFormValues v")
      (simp_all add: updateFormValueChanges_def detectFormValueChanges_def getFormValues_def Let_def)
  show ?thesis using a b c d e by blast
qed

text \<open>
  Scenario A's form: a first detection, the round trip, a baseline with the same
  entries in another key order, and a baseline that differs in one value.
\<close>
theorem change_tracking_round_trip_witness:
  "detectFormValueChanges scenarioA = Some [(''name'', []), (''email'', ''a@b.com'')]
   \<and> detectFormValueChanges (snd (updateFormValueChanges scenarioA)) = None
   \<and> detectFormValueChanges
       (scenarioA\<lparr>previousFormValues := Some [(''email'', ''a@b.com''), (''name'', [])]\<rparr>) = None
   \<and> detectFormValueChanges
       (scenarioA\<lparr>previousFormValues := Some [(''name'', ''x''), (''email'', ''a@b.com'')]\<rparr>) \<noteq> None"
proof -
  have vals: "\<And>p. getFormValues (scenarioA\<lparr>previousFormValues := p\<rparr>) =
      [(''name'', []), (''email'', ''a@b.com'')]"
    "getFormValues scenarioA = [(''name'', []), (''email'', ''a@b.com'')]"
    by (simp_all add: sample_defs getFormValues_def elementKey_def element_defs)
  have "previousFormValues scenarioA = None"
    by (simp add: sample_defs)
  then have a: "detectFormValueChanges scenarioA = Some [(''name'', []), (''email'', ''a@b.com'')]"
    using change_tracking_round_trip [where v = scenarioA] vals by simp
  have b: "detectFormValueChanges (snd (updateFormValueChanges scenarioA)) = None"
    using change_tracking_round_trip [where v = scenarioA] by simp
  have c: "detectFormValueChanges
       (scenarioA\<lparr>previousFormValues := Some [(''email'', ''a@b.com''), (''name'', [])]\<rparr>) = None"
    using change_tracking_round_trip
      [where v = "scenarioA\<lparr>previousFormValues := Some [(''email'', ''a@b.com''), (''name'', [])]\<rparr>"
        and old = "[(''email'', ''a@b.com''), (''name'', [])]", THEN conjunct2, THEN conjunct2,
        THEN conjunct2, THEN conjunct1]
    by (simp add: vals fun_eq_iff)
  have d: "detectFormValueChanges
       (scenarioA\<lparr>previousFormValues := Some [(''name'', ''x''), (''email'', ''a@b.com'')]\<rparr>) \<noteq> None"
    using change_tracking_round_trip
      [where v = "scenarioA\<lparr>previousFormValues := Some [(''name'', ''x''), (''email'', ''a@b.com'')]\<rparr>"
        and old = "[(''name'', ''x''), (''email'', ''a@b.com'')]", THEN conjunct2, THEN conjunct2,
        THEN conjunct2, THEN conjunct1]
    by (simp add: vals fun_eq_iff)
  show ?thesis using a b c d by simp
qed

section \<open>Validity is checked before enablement\<close>

text \<open>
  Claim C9. \<^verbatim>\<open>validateAndSubmit\<close> checks validity before enablement. A form that is
  valid, disabled and not halted resolves quietly: whether the call is dropped
  because a submission is in flight or reaches the enablement check, none of
  \<^verbatim>\<open>beforeSubmit\<close>, \<^verbatim>\<open>submit\<close> and \<^verbatim>\<open>afterSubmit\<close> is invoked, and with validity hooks
  that leave the view as it is the only change is the \<^verbatim>\<open>submitStart\<close> signal. A
  form that is invalid, disabled and not halted still gets its
  \<^verbatim>\<open>showValidationErrors\<close> pass and rejects with what that returns.
\<close>
theorem validate_before_enablement:
  "(isSubmitting v \<longrightarrow> validateAndSubmit S h v = (Resolved JUndefined, v))
   \<and> (\<not> isSubmitting v \<and> \<not> isHalted v \<and>
      isValid S h (trigger ''submitStart'' (v\<lparr>isSubmitting_flag := True\<rparr>)) = (True, v1) \<and>
      \<not> isFormEnabled v1 \<longrightarrow>
        validateAndSubmit S h v = (Resolved JUndefined, v1\<lparr>isSubmitting_flag := False\<rparr>) \<and>
        (\<forall>b s a. validateAndSubmit S (h\<lparr>beforeSubmit := b, submit := s, afterSubmit := a\<rparr>) v =
           validateAndSubmit S h v))
   \<and> (\<not> isSubmitting v \<and> \<not> isHalted v \<and> \<not> isFormEnabled v \<and>
      isValid S h (trigger ''submitStart'' (v\<lparr>isSubmitting_flag := True\<rparr>)) =
        (True, trigger ''submitStart'' (v\<lparr>isSubmitting_flag := True\<rparr>)) \<longrightarrow>
        validateAndSubmit S h v = (Resolved JUndefined, trigger ''submitStart'' v))
   \<and> (\<not> isSubmitting v \<and> \<not> isHalted v \<and>
      isValid S h (trigger ''submitStart'' (v\<lparr>isSubmitting_flag := True\<rparr>)) = (False, v1) \<and>
      \<not> isFormEnabled v1 \<longrightarrow>
        validateAndSubmit S h v =
          (Rejected (fst (showValidationErrors S h v1)),
           (snd (showValidationErrors S h v1))\<lparr>isSubmitting_flag := False\<rparr>))"
proof -
  let ?v0 = "trigger ''submitStart'' (v\<lparr>isSubmitting_flag := True\<rparr>)"
  have a: "isSubmitting v \<longrightarrow> validateAndSubmit S h v = (Resolved JUndefined, v)"
    by (simp add: validateAndSubmit_in_flight)
  have b: "\<not> isSubmitting v \<and> \<not> isHalted v \<and> isValid S h ?v0 = (True, v1) \<and>
      \<not> isFormEnabled v1 \<longrightarrow>
        validateAndSubmit S h v = (Resolved JUndefined, v1\<lparr>isSubmitting_flag := False\<rparr>) \<and>
        (\<forall>b s a. validateAndSubmit S (h\<lparr>beforeSubmit := b, submit := s, afterSubmit := a\<rparr>) v =
           validateAndSubmit S h v)"
  proof (intro impI, elim conjE)
    assume hyp: "\<not> isSubmitting v" "\<not> isHalted v" "isValid S h ?v0 = (True, v1)"
      "\<not> isFormEnabled v1"
    have "\<And>b s a. isValid S (h\<lparr>beforeSubmit := b, submit := s, afterSubmit := a\<rparr>) ?v0 = (True, v1)"
      using hyp(3) by simp
    then show "validateAndSubmit S h v = (Resolved JUndefined, v1\<lparr>isSubmitting_flag := False\<rparr>) \<and>
        (\<forall>b s a. validateAndSubmit S (h\<lparr>beforeSubmit := b, submit := s, afterSubmit := a\<rparr>) v =
           validateAndSubmit S h v)"
      using hyp by (simp add: validateAndSubmit_disabled)
  qed
  have c: "\<not> isSubmitting v \<and> \<not> isHalted v \<and> \<not> isFormEnabled v \<and>
      isValid S h ?v0 = (True, ?v0) \<longrightarrow>
        validateAndSubmit S h v = (Resolved JUndefined, trigger ''submitStart'' v)"
  proof (intro impI, elim conjE)
    assume hyp: "\<not> isSubmitting v" "\<not> isHalted v" "\<not> isFormEnabled v"
      "isValid S h ?v0 = (True, ?v0)"
    have "\<not> isFormEnabled ?v0"
      using hyp(3) by (simp add: isFormEnabled_def trigger_def)
    from validateAndSubmit_disabled [OF hyp(1) hyp(2) hyp(4) this]
    show "validateAndSubmit S h v = (Resolved JUndefined, trigger ''submitStart'' v)"
      using hyp(1) by (simp add: left_idle)
  qed
  have d: "\<not> isSubmitting v \<and> \<not> isHalted v \<and> isValid S h ?v0 = (False, v1) \<and>
      \<not> isFormEnabled v1 \<longrightarrow>
        validateAndSubmit S h v =
          (Rejected (fst (showValidationErrors S h v1)),
           (snd (showValidationErrors S h v1))\<lparr>isSubmitting_flag := False\<rparr>)"
    by (simp add: validateAndSubmit_invalid)
  show ?thesis using a b c d by blast
qed

text \<open>
  A disabled form with a valid email resolves and shows nothing; a disabled form
  with an invalid email gets its tooltip.
\<close>
theorem validate_before_enablement_witness:
  "validateAndSubmit sampleServices defaultHooks
       ((freshView [emailField ''a@b.com''])\<lparr>isFormEnabled_flag := False\<rparr>) =
     (Resolved JUndefined,
      trigger ''submitStart'' ((freshView [emailField ''a@b.com''])\<lparr>isFormEnabled_flag := False\<rparr>))
   \<and> validateAndSubmit sampleServices defaultHooks
       ((freshView [emailField ''a@b.com''])
          \<lparr>isFormEnabled_flag := False, isSubmitting_flag := True\<rparr>) =
     (Resolved JUndefined,
      (freshView [emailField ''a@b.com''])\<lparr>isFormEnabled_flag := False, isSubmitting_flag := True\<rparr>)
   \<and> fst (validateAndSubmit sampleServices defaultHooks
        ((freshView [emailField ''not-an-email''])\<lparr>isFormEnabled_flag := False\<rparr>)) =
     Rejected (JStr ''INVALID_EMAIL'')
   \<and> tooltips (snd (validateAndSubmit sampleServices defaultHooks
        ((freshView [emailField ''not-an-email''])\<lparr>isFormEnabled_flag := False\<rparr>))) =
     [\<lparr>invalidEl = emailField ''not-an-email'', message = ''INVALID_EMAIL''\<rparr>]"
proof -
  let ?S = sampleServices
  let ?good = "(freshView [emailField ''a@b.com''])\<lparr>isFormEnabled_flag := False\<rparr>"
  let ?busy = "(freshView [emailField ''a@b.com''])
          \<lparr>isFormEnabled_flag := False, isSubmitting_flag := True\<rparr>"
  let ?bad = "(freshView [emailField ''not-an-email''])\<lparr>isFormEnabled_flag := False\<rparr>"
  let ?goodIn = "trigger ''submitStart'' (?good\<lparr>isSubmitting_flag := True\<rparr>)"
  let ?badIn = "trigger ''submitStart'' (?bad\<lparr>isSubmitting_flag := True\<rparr>)"
  have state: "\<not> isSubmitting ?good" "\<not> isHalted ?good" "\<not> isFormEnabled ?good"
    "isSubmitting ?busy" "\<not> isSubmitting ?bad" "\<not> isHalted ?bad" "\<not> isFormEnabled ?badIn"
    by (simp_all add: isSubmitting_def isHalted_def isFormEnabled_def freshView_def trigger_def)
  have verdicts: "isValid ?S defaultHooks ?goodIn = (True, ?goodIn)"
    "isValid ?S defaultHooks ?badIn = (False, ?badIn)"
    by (simp_all add: isValid_default)
  have a: "validateAndSubmit ?S defaultHooks ?good = (Resolved JUndefined, trigger ''submitStart'' ?good)"
    using validate_before_enablement [where S = ?S and h = defaultHooks and v = ?good,
        THEN conjunct2, THEN conjunct2, THEN conjunct1] state verdicts
    by blast
  have b: "validateAndSubmit ?S defaultHooks ?busy = (Resolved JUndefined, ?busy)"
    using validate_before_enablement [where S = ?S and h = defaultHooks and v = ?busy,
        THEN conjunct1] state
    by blast
  have hidden: "hideError ?badIn = ?badIn"
    by (simp add: hideError_id trigger_def freshView_def)
  have "showValidationErrors ?S defaultHooks ?badIn =
      (JStr ''INVALID_EMAIL'', snd (showEmailValidationError ?S (emailField ''not-an-email'') ?badIn))"
    using showValidationErrors_at_first_invalid [where S = ?S and h = defaultHooks and v = ?badIn
        and ?v1.0 = ?badIn and pre = "[]" and el = "emailField ''not-an-email''" and post = "[]"]
    by (simp add: hidden isElementValid_rule)
  then have shown: "fst (showValidationErrors ?S defaultHooks ?badIn) = JStr ''INVALID_EMAIL''"
    "tooltips (snd (showValidationErrors ?S defaultHooks ?badIn)) =
      [\<lparr>invalidEl = emailField ''not-an-email'', message = ''INVALID_EMAIL''\<rparr>]"
    by (simp_all add: showEmailValidationError_eq showValidationError_eq trigger_def freshView_def)
  have c: "validateAndSubmit ?S defaultHooks ?bad =
      (Rejected (fst (showValidationErrors ?S defaultHooks ?badIn)),
       (snd (showValidationErrors ?S defaultHooks ?badIn))\<lparr>isSubmitting_flag := False\<rparr>)"
    using validate_before_enablement [where S = ?S and h = defaultHooks and v = ?bad
        and ?v1.0 = ?badIn, THEN conjunct2, THEN conjunct2, THEN conjunct2] state verdicts
    by blast
  show ?thesis
    using a b c by (simp add: shown)
qed

section \<open>Enabling the submit button\<close>

text \<open>
  Claim C10. While the view is submitting or halted, \<^verbatim>\<open>enableSubmitIfValid\<close> changes
  nothing. Otherwise it hides the error and the success message, runs \<^verbatim>\<open>isValid\<close>
  on the view with both hidden, and enables the form when the verdict is true and
  disables it when it is false; with validity hooks that leave the view as it is,
  no error and no success message is visible afterwards.
\<close>
theorem enableSubmitIfValid_guarded:
  "(isSubmitting v \<or> isHalted v \<longrightarrow> enableSubmitIfValid S h v = v)
   \<and> (\<not> isSubmitting v \<and> \<not> isHalted v \<and> isValid S h (hideSuccess (hideError v)) = (valid, v1) \<longrightarrow>
        enableSubmitIfValid S h v = (if valid then enableForm v1 else disableForm v1) \<and>
        isFormEnabled (enableSubmitIfValid S h v) = valid)
   \<and> (\<not> isSubmitting v \<and> \<not> isHalted v \<and>
      isValid S h (hideSuccess (hideError v)) = (valid, hideSuccess (hideError v)) \<longrightarrow>
        visibleError (enableSubmitIfValid S h v) = None \<and>
        visibleSuccess (enableSubmitIfValid S h v) = False \<and>
        isFormEnabled (enableSubmitIfValid S h v) = valid)"
  by (simp add: enableSubmitIfValid_def isFormEnabled_def enableForm_def disableForm_def
      hideError_def hideSuccess_def)

text \<open>
  A submitting and a halted view stay as they are; Scenario A's form is disabled;
  a valid form showing an error and a success message is enabled and both are
  hidden.
\<close>
theorem enableSubmitIfValid_guarded_witness:
  "enableSubmitIfValid sampleServices defaultHooks (scenarioA\<lparr>isSubmitting_flag := True\<rparr>)
     = scenarioA\<lparr>isSubmitting_flag := True\<rparr>
   \<and> enableSubmitIfValid sampleServices defaultHooks
       (scenarioA\<lparr>isHalted_flag := True, visibleError := Some (JStr ''offline'')\<rparr>)
     = scenarioA\<lparr>isHalted_flag := True, visibleError := Some (JStr ''offline'')\<rparr>
   \<and> isFormEnabled (enableSubmitIfValid sampleServices defaultHooks scenarioA) = False
   \<and> isFormEnabled (enableSubmitIfValid sampleServices defaultHooks
        ((freshView [emailField ''a@b.com''])
           \<lparr>isFormEnabled_flag := False, visibleError := Some (JStr ''offline''),
             visibleSuccess := True\<rparr>)) = True
   \<and> visibleError (enableSubmitIfValid sampleServices defaultHooks
        ((freshView [emailField ''a@b.com''])
           \<lparr>isFormEnabled_flag := False, visibleError := Some (JStr ''offline''),
             visibleSuccess := True\<rparr>)) = None
   \<and> visibleSuccess (enableSubmitIfValid sampleServices defaultHooks
        ((freshView [emailField ''a@b.com''])
           \<lparr>isFormEnabled_flag := False, visibleError := Some (JStr ''offline''),
             visibleSuccess := True\<rparr>)) = False"
proof -
  let ?busy = "scenarioA\<lparr>isSubmitting_flag := True\<rparr>"
  let ?halted = "scenarioA\<lparr>isHalted_flag := True, visibleError := Some (JStr ''offline'')\<rparr>"
  let ?good = "(freshView [emailField ''a@b.com''])
           \<lparr>isFormEnabled_flag := False, visibleError := Some (JStr ''offline''),
             visibleSuccess := True\<rparr>"
  have "isSubmitting ?busy" by (simp add: isSubmitting_def)
  then have a: "enableSubmitIfValid sampleServices defaultHooks ?busy = ?busy"
    using enableSubmitIfValid_guarded [where v = ?busy] by blast
  have "isHalted ?halted" by (simp add: isHalted_def)
  then have b: "enableSubmitIfValid sampleServices defaultHooks ?halted = ?halted"
    using enableSubmitIfValid_guarded [where v = ?halted] by blast
  have idle: "\<not> isSubmitting scenarioA" "\<not> isHalted scenarioA"
    "\<not> isSubmitting ?good" "\<not> isHalted ?good"
    by (simp_all add: isSubmitting_def isHalted_def sample_defs)
  have "isValid sampleServices defaultHooks (hideSuccess (hideError scenarioA)) =
      (False, hideSuccess (hideError scenarioA))"
    by (simp add: isValid_default sample_defs element_defs hideError_def hideSuccess_def)
  then have c: "isFormEnabled (enableSubmitIfValid sampleServices defaultHooks scenarioA) = False"
    using enableSubmitIfValid_guarded [where v = scenarioA and S = sampleServices
        and h = defaultHooks and valid = False] idle
    by blast
  have "isValid sampleServices defaultHooks (hideSuccess (hideError ?good)) =
      (True, hideSuccess (hideError ?good))"
    by (simp add: isValid_default sample_defs element_defs hideError_def hideSuccess_def)
  then have d: "visibleError (enableSubmitIfValid sampleServices defaultHooks ?good) = None \<and>
        visibleSuccess (enableSubmitIfValid sampleServices defaultHooks ?good) = False \<and>
        isFormEnabled (enableSubmitIfValid sampleServices defaultHooks ?good) = True"
    using enableSubmitIfValid_guarded [where v = ?good and S = sampleServices
        and h = defaultHooks and valid = True] idle
    by blast
  show ?thesis using a b c d by simp
qed

end
